theory Spec2Isabelle
  imports Complex_Main "HOL-Library.Word"
begin

section \<open>JavaScript values\<close>

text \<open>
  The external service answers with JSON, which the code handles untyped:
  \<^verbatim>\<open>const data = await response.json()\<close>. A value is therefore modelled as it is at run
  time. Numbers are rationals (no payload arithmetic is done by the code, only comparisons
  with constants), an object is an association list read with \<^const>\<open>map_of\<close>.

  A string of JavaScript is a sequence of UTF-16 code units, and the submitted value is
  looked at unit by unit (by the pattern of the handler, by \<^verbatim>\<open>encodeURIComponent\<close>):
  the strings of values, the keys of objects and the value column are lists of 16-bit
  words. \<open>str16\<close> gives the units of a text of the source, which is ASCII. The texts the
  code only builds or passes on (names and messages of errors, the text of a response,
  headers, the verification code) are kept as \<^typ>\<open>string\<close>.
\<close>

type_synonym jsstring = "16 word list"

definition str16 :: "string \<Rightarrow> jsstring" where
  "str16 s = map (\<lambda>c. of_nat (of_char c)) s"

datatype jsval =
    JUndefined
  | JNull
  | JBool bool
  | JNum rat
  | JStr jsstring
  | JArr "jsval list"
  | JObj "(jsstring \<times> jsval) list"

datatype js_error = JsError (err_name: string) (err_message: string)

text \<open>The values that \<^verbatim>\<open>!v\<close>, \<^verbatim>\<open>v || d\<close> and \<^verbatim>\<open>v ? a : b\<close> treat as true.\<close>

fun truthy :: "jsval \<Rightarrow> bool" where
  "truthy JUndefined = False"
| "truthy JNull = False"
| "truthy (JBool b) = b"
| "truthy (JNum n) = (n \<noteq> 0)"
| "truthy (JStr s) = (s \<noteq> [])"
| "truthy (JArr vs) = True"
| "truthy (JObj kvs) = True"

text \<open>
  Property access \<^verbatim>\<open>v.k\<close>: a TypeError on \<^verbatim>\<open>null\<close> and \<^verbatim>\<open>undefined\<close>,
  \<^verbatim>\<open>undefined\<close> for a property that is not there. The property names the code reads
  (\<^verbatim>\<open>phone\<close>, \<^verbatim>\<open>valid\<close>, \<^verbatim>\<open>type\<close>, \<^verbatim>\<open>email_address\<close>,
  \<^verbatim>\<open>email_deliverability\<close>) are no built-in property of a boolean, number, string or array.
\<close>

fun getProp :: "jsval \<Rightarrow> string \<Rightarrow> js_error + jsval" where
  "getProp JUndefined k =
     Inl (JsError ''TypeError'' (''Cannot read properties of undefined (reading '' @ k @ '')''))"
| "getProp JNull k =
     Inl (JsError ''TypeError'' (''Cannot read properties of null (reading '' @ k @ '')''))"
| "getProp (JObj kvs) k = Inr (case map_of kvs (str16 k) of None \<Rightarrow> JUndefined | Some v \<Rightarrow> v)"
| "getProp v k = Inr JUndefined"

text \<open>\<^verbatim>\<open>s.includes(sub)\<close>\<close>

fun js_includes :: "string \<Rightarrow> string \<Rightarrow> bool" where
  "js_includes [] sub = (sub = [])"
| "js_includes (c # cs) sub = (take (length sub) (c # cs) = sub \<or> js_includes cs sub)"

text \<open>The decimal digits of a number, as a template literal prints an HTTP status.\<close>

fun show_nat :: "nat \<Rightarrow> string" where
  "show_nat n =
     (if n < 10 then [char_of (48 + n)] else show_nat (n div 10) @ [char_of (48 + n mod 10)])"

declare show_nat.simps [simp del]


section \<open>External Validation Client (abstract-api.ts)\<close>

text \<open>
  One call of \<^verbatim>\<open>fetch\<close> either rejects (a \<^verbatim>\<open>TypeError\<close> on a network failure, an
  \<^verbatim>\<open>AbortError\<close> when the 10 second timer aborts it) or resolves with a response. Of the
  response the code reads the status, the text (\<^verbatim>\<open>response.text()\<close>) and the parsed
  body (\<^verbatim>\<open>response.json()\<close>, which throws a \<^verbatim>\<open>SyntaxError\<close> on a body that is not JSON).
\<close>

datatype body_json = Parsed jsval | NotJson string

record response =
  resp_status :: nat
  resp_text :: string
  resp_json :: body_json

datatype fetch_outcome = Rejects js_error | Resolves response

text \<open>\<^verbatim>\<open>response.ok\<close>\<close>

definition ok :: "response \<Rightarrow> bool" where
  "ok r = (200 \<le> resp_status r \<and> resp_status r \<le> 299)"

definition maxRetries :: nat where
  "maxRetries = 3"

text \<open>\<^verbatim>\<open>Math.min(1000 * Math.pow(2, attempt - 1), 5000)\<close>\<close>

definition delay :: "nat \<Rightarrow> nat" where
  "delay attempt = min (1000 * 2 ^ (attempt - 1)) 5000"

text \<open>
  What one iteration of the retry loop ends in: the function returns, it throws, or the loop
  goes on to the next attempt, after a wait (\<open>Some ms\<close>) or at once (\<open>None\<close>).
\<close>

datatype step = Return jsval | Throw js_error | Continue "nat option"

text \<open>
  What a call of the client leaves behind: its result, the number of calls of
  \<^verbatim>\<open>fetch\<close> it made, and the waits between attempts, in order.
\<close>

record client_result =
  cr_result :: "js_error + jsval"
  cr_calls :: nat
  cr_waits :: "nat list"

definition waited :: "nat option \<Rightarrow> nat list" where
  "waited w = (case w of None \<Rightarrow> [] | Some ms \<Rightarrow> [ms])"

text \<open>
  The URL of a call is built inside the \<^verbatim>\<open>try\<close> block with
  \<^verbatim>\<open>encodeURIComponent(value)\<close>, which throws a \<^verbatim>\<open>URIError\<close> when the value has
  a surrogate that is not part of a pair; \<^verbatim>\<open>fetch\<close> is then not called. The encoded
  text itself goes into the URL of a call whose outcome is given, and is not computed.
\<close>

definition is_high_surrogate :: "16 word \<Rightarrow> bool" where
  "is_high_surrogate c = (0xD800 \<le> c \<and> c \<le> 0xDBFF)"

definition is_low_surrogate :: "16 word \<Rightarrow> bool" where
  "is_low_surrogate c = (0xDC00 \<le> c \<and> c \<le> 0xDFFF)"

fun well_formed :: "jsstring \<Rightarrow> bool" where
  "well_formed [] = True"
| "well_formed [c] = (\<not> is_high_surrogate c \<and> \<not> is_low_surrogate c)"
| "well_formed (c # d # cs) =
     (if is_high_surrogate c then is_low_surrogate d \<and> well_formed cs
      else \<not> is_low_surrogate c \<and> well_formed (d # cs))"

definition encodeURIComponent_error :: "jsstring \<Rightarrow> js_error option" where
  "encodeURIComponent_error v =
     (if well_formed v then None else Some (JsError ''URIError'' ''URI malformed''))"

subsection \<open>validatePhone\<close>

text \<open>
  The \<^verbatim>\<open>try\<close> block of one attempt, from the answer of \<^verbatim>\<open>fetch\<close> on; \<open>Inl\<close>
  is an error thrown inside it.
\<close>

definition validatePhone_response :: "fetch_outcome \<Rightarrow> nat \<Rightarrow> js_error + step" where
  "validatePhone_response outcome attempt =
     (case outcome of
        Rejects e \<Rightarrow> Inl e
      | Resolves r \<Rightarrow>
          if \<not> ok r then
            (if attempt = maxRetries
             then Inl (JsError ''Error'' (''HTTP error! status: '' @ show_nat (resp_status r)))
             else Inr (Continue (Some (delay attempt))))
          else
            (case resp_json r of
               NotJson m \<Rightarrow> Inl (JsError ''SyntaxError'' m)
             | Parsed data \<Rightarrow> Inr (Return data)))"

text \<open>
  The whole \<^verbatim>\<open>try\<close> block of one attempt for the value \<open>phone\<close>: what it ends in,
  and whether \<^verbatim>\<open>fetch\<close> was called.
\<close>

definition validatePhone_try :: "jsstring \<Rightarrow> fetch_outcome \<Rightarrow> nat \<Rightarrow> (js_error + step) \<times> bool" where
  "validatePhone_try phone outcome attempt =
     (case encodeURIComponent_error phone of
        Some e \<Rightarrow> (Inl e, False)
      | None \<Rightarrow> (validatePhone_response outcome attempt, True))"

text \<open>The \<^verbatim>\<open>catch\<close> block of one attempt.\<close>

definition validatePhone_catch :: "nat \<Rightarrow> js_error \<Rightarrow> step" where
  "validatePhone_catch attempt error =
     (if err_name error = ''AbortError'' \<or> err_name error = ''TypeError'' then
        (if attempt = maxRetries
         then Throw (JsError ''Error''
           ''Failed to connect to phone validation service. Please check your internet connection.'')
         else Continue (Some (delay attempt)))
      else if attempt = maxRetries
        then Throw (JsError ''Error'' ''Failed to validate phone with Abstract API'')
      else Continue (Some (delay attempt)))"

definition validatePhone_attempt :: "jsstring \<Rightarrow> fetch_outcome \<Rightarrow> nat \<Rightarrow> step \<times> bool" where
  "validatePhone_attempt phone outcome attempt =
     (case validatePhone_try phone outcome attempt of
        (Inl error, called) \<Rightarrow> (validatePhone_catch attempt error, called)
      | (Inr s, called) \<Rightarrow> (s, called))"

text \<open>
  The loop \<^verbatim>\<open>for (let attempt = 1; attempt <= maxRetries; attempt++)\<close> and the
  \<^verbatim>\<open>throw\<close> after it. \<open>fetch n\<close> is the outcome of the \<open>n\<close>-th call of
  \<^verbatim>\<open>fetch\<close>.
\<close>

function validatePhone_loop ::
  "jsstring \<Rightarrow> (nat \<Rightarrow> fetch_outcome) \<Rightarrow> nat \<Rightarrow> nat \<Rightarrow> nat list \<Rightarrow> client_result" where
  "validatePhone_loop phone fetch attempt calls waits =
     (if attempt \<le> maxRetries then
        (case validatePhone_attempt phone (fetch (calls + 1)) attempt of (s, called) \<Rightarrow>
           (let calls' = (if called then calls + 1 else calls) in
            case s of
              Return data \<Rightarrow> \<lparr>cr_result = Inr data, cr_calls = calls', cr_waits = waits\<rparr>
            | Throw e \<Rightarrow> \<lparr>cr_result = Inl e, cr_calls = calls', cr_waits = waits\<rparr>
            | Continue w \<Rightarrow>
                validatePhone_loop phone fetch (attempt + 1) calls' (waits @ waited w)))
      else \<lparr>cr_result = Inl (JsError ''Error'' ''Failed to validate phone with Abstract API''),
             cr_calls = calls, cr_waits = waits\<rparr>)"
  by pat_completeness auto
termination
  by (relation "measure (\<lambda>(phone, fetch, attempt, calls, waits). maxRetries + 1 - attempt)")
    auto

declare validatePhone_loop.simps [simp del]

definition validatePhone :: "jsstring \<Rightarrow> (nat \<Rightarrow> fetch_outcome) \<Rightarrow> client_result" where
  "validatePhone phone fetch = validatePhone_loop phone fetch 1 0 []"

subsection \<open>validateEmail\<close>

text \<open>The error both \<^verbatim>\<open>throw\<close>s of the \<^verbatim>\<open>!response.ok\<close> branch build.\<close>

definition http_error :: "response \<Rightarrow> js_error" where
  "http_error r =
     JsError ''Error''
       (''HTTP error! status: '' @ show_nat (resp_status r) @ '', message: '' @ resp_text r)"

text \<open>
  The test \<^verbatim>\<open>!data.email_address || !data.email_deliverability\<close>: it reads
  \<^verbatim>\<open>email_address\<close> first and \<^verbatim>\<open>email_deliverability\<close> only when the first is
  truthy, and it throws when \<^verbatim>\<open>data\<close> is \<^verbatim>\<open>null\<close>.
\<close>

definition invalid_structure :: "jsval \<Rightarrow> js_error + bool" where
  "invalid_structure data =
     (case getProp data ''email_address'' of
        Inl e \<Rightarrow> Inl e
      | Inr email_address \<Rightarrow>
          if \<not> truthy email_address then Inr True
          else
            (case getProp data ''email_deliverability'' of
               Inl e \<Rightarrow> Inl e
             | Inr email_deliverability \<Rightarrow> Inr (\<not> truthy email_deliverability)))"

text \<open>
  The \<^verbatim>\<open>try\<close> block of one attempt, from the answer of \<^verbatim>\<open>fetch\<close> on; \<open>Inl\<close>
  is an error thrown inside it.
\<close>

definition validateEmail_response :: "fetch_outcome \<Rightarrow> nat \<Rightarrow> js_error + step" where
  "validateEmail_response outcome attempt =
     (case outcome of
        Rejects e \<Rightarrow> Inl e
      | Resolves r \<Rightarrow>
          if \<not> ok r then
            (if 400 \<le> resp_status r \<and> resp_status r < 500 \<and> resp_status r \<noteq> 429
               then Inl (http_error r)
             else if attempt = maxRetries then Inl (http_error r)
             else Inr (Continue (Some (delay attempt))))
          else
            (case resp_json r of
               NotJson m \<Rightarrow> Inl (JsError ''SyntaxError'' m)
             | Parsed data \<Rightarrow>
                 (case invalid_structure data of
                    Inl e \<Rightarrow> Inl e
                  | Inr invalid \<Rightarrow>
                      if invalid then
                        (if attempt = maxRetries
                         then Inl (JsError ''Error'' ''Invalid API response structure'')
                         else Inr (Continue None))
                      else Inr (Return data))))"

text \<open>The \<^verbatim>\<open>catch\<close> block of one attempt.\<close>

definition validateEmail_catch :: "nat \<Rightarrow> js_error \<Rightarrow> step" where
  "validateEmail_catch attempt error =
     (if err_name error = ''AbortError'' \<or> err_name error = ''TypeError''
         \<or> js_includes (err_message error) ''fetch'' then
        (if attempt = maxRetries
         then Throw (JsError ''Error''
           ''Failed to connect to email validation service. Please check your internet connection.'')
         else Continue (Some (delay attempt)))
      else if attempt = 1
        then Throw (JsError ''Error''
               (''Failed to validate email with Abstract API: '' @ err_message error))
      else if attempt = maxRetries
        then Throw (JsError ''Error''
               (''Failed to validate email with Abstract API: '' @ err_message error))
      else Continue (Some (delay attempt)))"

text \<open>
  The whole \<^verbatim>\<open>try\<close> block of one attempt for the value \<open>email\<close>: what it ends in,
  and whether \<^verbatim>\<open>fetch\<close> was called. It throws before the call when the API key is
  empty, and when the value cannot be encoded.
\<close>

definition validateEmail_try ::
  "string \<Rightarrow> jsstring \<Rightarrow> fetch_outcome \<Rightarrow> nat \<Rightarrow> (js_error + step) \<times> bool" where
  "validateEmail_try emailApiKey email outcome attempt =
     (if emailApiKey = [] then (Inl (JsError ''Error'' ''Email API key not configured''), False)
      else
        (case encodeURIComponent_error email of
           Some e \<Rightarrow> (Inl e, False)
         | None \<Rightarrow> (validateEmail_response outcome attempt, True)))"

definition validateEmail_attempt ::
  "string \<Rightarrow> jsstring \<Rightarrow> fetch_outcome \<Rightarrow> nat \<Rightarrow> step \<times> bool" where
  "validateEmail_attempt emailApiKey email outcome attempt =
     (case validateEmail_try emailApiKey email outcome attempt of
        (Inl error, called) \<Rightarrow> (validateEmail_catch attempt error, called)
      | (Inr s, called) \<Rightarrow> (s, called))"

function validateEmail_loop ::
  "string \<Rightarrow> jsstring \<Rightarrow> (nat \<Rightarrow> fetch_outcome) \<Rightarrow> nat \<Rightarrow> nat \<Rightarrow> nat list
     \<Rightarrow> client_result" where
  "validateEmail_loop emailApiKey email fetch attempt calls waits =
     (if attempt \<le> maxRetries then
        (case validateEmail_attempt emailApiKey email (fetch (calls + 1)) attempt of
           (s, called) \<Rightarrow>
           (let calls' = (if called then calls + 1 else calls) in
            case s of
              Return data \<Rightarrow> \<lparr>cr_result = Inr data, cr_calls = calls', cr_waits = waits\<rparr>
            | Throw e \<Rightarrow> \<lparr>cr_result = Inl e, cr_calls = calls', cr_waits = waits\<rparr>
            | Continue w \<Rightarrow>
                validateEmail_loop emailApiKey email fetch (attempt + 1) calls'
                  (waits @ waited w)))
      else \<lparr>cr_result = Inl (JsError ''Error'' ''Failed to validate email with Abstract API''),
             cr_calls = calls, cr_waits = waits\<rparr>)"
  by pat_completeness auto
termination
  by (relation
      "measure (\<lambda>(key, email, fetch, attempt, calls, waits). maxRetries + 1 - attempt)") auto

declare validateEmail_loop.simps [simp del]

definition validateEmail :: "string \<Rightarrow> jsstring \<Rightarrow> (nat \<Rightarrow> fetch_outcome) \<Rightarrow> client_result" where
  "validateEmail emailApiKey email fetch = validateEmail_loop emailApiKey email fetch 1 0 []"


section \<open>Record Store (database.ts)\<close>

datatype kind = Email | Phone

datatype status = Pending | Verified | Failed

datatype risk = Low | Medium | High

text \<open>
  A row of the table \<^verbatim>\<open>verification_requests\<close>; \<open>None\<close> is SQL \<^verbatim>\<open>NULL\<close>. The two
  timestamp columns hold a text \<^verbatim>\<open>YYYY-MM-DD HH:MM:SS\<close> with no zone, which SQLite
  writes in UTC: the column is modelled as the instant, in milliseconds, that this text
  names when it is read in UTC. The two JSON columns hold the value whose
  \<^verbatim>\<open>JSON.stringify\<close> text the table stores.
\<close>

record row =
  col_id :: nat
  col_type :: kind
  col_value :: jsstring
  col_status :: status
  col_verification_code :: "string option"
  col_created_at :: int
  col_updated_at :: int
  col_ip_address :: "string option"
  col_user_agent :: "string option"
  col_validation_data :: "jsval option"
  col_reputation_data :: "jsval option"
  col_api_response_time :: "int option"
  col_quality_score :: "rat option"
  col_risk_level :: "risk option"

text \<open>
  The argument of \<^verbatim>\<open>createVerificationRequest\<close>, of type
  \<^verbatim>\<open>Omit<VerificationRequest, 'id' | 'created_at' | 'updated_at'>\<close>. \<open>None\<close> is an absent
  property, and so is \<^const>\<open>JUndefined\<close> in the two fields of type \<^verbatim>\<open>unknown\<close>. The
  interface requires \<^verbatim>\<open>status\<close>; the code, with its \<^verbatim>\<open>request.status || 'pending'\<close>,
  also takes a request without one.
\<close>

record request_fields =
  vr_type :: kind
  vr_value :: jsstring
  vr_status :: "status option"
  vr_verification_code :: "string option"
  vr_ip_address :: "string option"
  vr_user_agent :: "string option"
  vr_validation_data :: jsval
  vr_reputation_data :: jsval
  vr_api_response_time :: "int option"
  vr_quality_score :: "rat option"
  vr_risk_level :: "risk option"

text \<open>The object \<^verbatim>\<open>createVerificationRequest\<close> returns.\<close>

record VerificationRequest = request_fields +
  vr_id :: nat
  vr_created_at :: int
  vr_updated_at :: int

text \<open>
  SQLite's \<^verbatim>\<open>CURRENT_TIMESTAMP\<close> at the instant \<open>t\<close> (milliseconds): the UTC time to
  the second.
\<close>

definition CURRENT_TIMESTAMP :: "int \<Rightarrow> int" where
  "CURRENT_TIMESTAMP t = (t div 1000) * 1000"

text \<open>
  \<^verbatim>\<open>new Date(text).getTime()\<close> on such a text: with no zone in it, JavaScript reads the
  text as local time. In a zone \<open>utcOffset\<close> milliseconds ahead of UTC the instant read is
  that much before the instant SQLite meant.
\<close>

definition Date_getTime :: "int \<Rightarrow> int \<Rightarrow> int" where
  "Date_getTime utcOffset text_utc = text_utc - utcOffset"

text \<open>
  \<^verbatim>\<open>result.lastID\<close> of an insert into a table with
  \<^verbatim>\<open>INTEGER PRIMARY KEY AUTOINCREMENT\<close> from which nothing is ever deleted.
\<close>

definition lastID :: "row list \<Rightarrow> nat" where
  "lastID db = Suc (foldr max (map col_id db) 0)"

text \<open>\<^verbatim>\<open>toUpperCase\<close> on the ASCII letters, and \<^verbatim>\<open>substring(2, 8)\<close>.\<close>

definition toUpperCase_char :: "char \<Rightarrow> char" where
  "toUpperCase_char c =
     (case map_of (zip ''abcdefghijklmnopqrstuvwxyz'' ''ABCDEFGHIJKLMNOPQRSTUVWXYZ'') c of
        None \<Rightarrow> c
      | Some u \<Rightarrow> u)"

definition toUpperCase :: "string \<Rightarrow> string" where
  "toUpperCase s = map toUpperCase_char s"

definition substring_2_8 :: "string \<Rightarrow> string" where
  "substring_2_8 s = take 6 (drop 2 s)"

text \<open>
  \<^verbatim>\<open>Math.random().toString(36).substring(2, 8).toUpperCase()\<close>, from the text
  \<open>random36\<close> that \<^verbatim>\<open>Math.random().toString(36)\<close> gave.
\<close>

definition verificationCode :: "string \<Rightarrow> string" where
  "verificationCode random36 = toUpperCase (substring_2_8 random36)"

text \<open>\<^verbatim>\<open>x || null\<close> on an optional number, and on a value to store as JSON text.\<close>

definition or_null :: "('a::zero) option \<Rightarrow> 'a option" where
  "or_null x = (case x of None \<Rightarrow> None | Some n \<Rightarrow> if n = 0 then None else Some n)"

definition json_or_null :: "jsval \<Rightarrow> jsval option" where
  "json_or_null v = (if truthy v then Some v else None)"

text \<open>
  \<^verbatim>\<open>createVerificationRequest\<close>: \<open>dbTime\<close> is the store's clock at the insert,
  \<open>jsTime\<close> the clock \<^verbatim>\<open>new Date()\<close> reads afterwards.
\<close>

definition inserted_row :: "string \<Rightarrow> int \<Rightarrow> request_fields \<Rightarrow> row list \<Rightarrow> row" where
  "inserted_row random36 dbTime request db =
     \<lparr>col_id = lastID db,
      col_type = vr_type request,
      col_value = vr_value request,
      col_status = (case vr_status request of None \<Rightarrow> Pending | Some s \<Rightarrow> s),
      col_verification_code = Some (verificationCode random36),
      col_created_at = CURRENT_TIMESTAMP dbTime,
      col_updated_at = CURRENT_TIMESTAMP dbTime,
      col_ip_address = vr_ip_address request,
      col_user_agent = vr_user_agent request,
      col_validation_data = json_or_null (vr_validation_data request),
      col_reputation_data = json_or_null (vr_reputation_data request),
      col_api_response_time = or_null (vr_api_response_time request),
      col_quality_score = or_null (vr_quality_score request),
      col_risk_level = vr_risk_level request\<rparr>"

definition createVerificationRequest ::
  "string \<Rightarrow> int \<Rightarrow> int \<Rightarrow> request_fields \<Rightarrow> row list \<Rightarrow> VerificationRequest \<times> row list" where
  "createVerificationRequest random36 dbTime jsTime request db =
     (request_fields.extend
        (request\<lparr>vr_status := Some (case vr_status request of None \<Rightarrow> Pending | Some s \<Rightarrow> s),
                 vr_verification_code := Some (verificationCode random36)\<rparr>)
        (VerificationRequest.fields (lastID db) jsTime jsTime),
      db @ [inserted_row random36 dbTime request db])"

text \<open>
  \<^verbatim>\<open>getVerificationRequestsByValue\<close>:
  \<^verbatim>\<open>WHERE type = ? AND value = ? ORDER BY created_at DESC\<close>.
\<close>

definition getVerificationRequestsByValue :: "kind \<Rightarrow> jsstring \<Rightarrow> row list \<Rightarrow> row list" where
  "getVerificationRequestsByValue type_p value_p db =
     sort_key (\<lambda>r. - col_created_at r)
       (filter (\<lambda>r. col_type r = type_p \<and> col_value r = value_p) db)"

text \<open>
  The argument \<^verbatim>\<open>updates: Partial<VerificationRequest>\<close> of
  \<^verbatim>\<open>updateVerificationRequest\<close>: every property of the interface, each optional.
\<close>

record updates =
  upd_id :: "nat option"
  upd_type :: "kind option"
  upd_value :: "jsstring option"
  upd_status :: "status option"
  upd_verification_code :: "string option"
  upd_created_at :: "int option"
  upd_updated_at :: "int option"
  upd_ip_address :: "string option"
  upd_user_agent :: "string option"
  upd_validation_data :: jsval
  upd_reputation_data :: jsval
  upd_api_response_time :: "int option"
  upd_quality_score :: "rat option"
  upd_risk_level :: "risk option"

text \<open>
  One entry of the array \<^verbatim>\<open>fields\<close>, with its entry of \<^verbatim>\<open>values\<close>: an assignment
  of the \<^verbatim>\<open>SET\<close> clause.
\<close>

datatype assignment =
    SetStatus status
  | SetValidationData jsval
  | SetReputationData jsval
  | SetApiResponseTime int
  | SetQualityScore rat
  | SetRiskLevel risk
  | SetUpdatedAt

definition update_fields :: "updates \<Rightarrow> assignment list" where
  "update_fields u =
     (case upd_status u of None \<Rightarrow> [] | Some s \<Rightarrow> [SetStatus s])
     @ (if upd_validation_data u \<noteq> JUndefined then [SetValidationData (upd_validation_data u)] else [])
     @ (if upd_reputation_data u \<noteq> JUndefined then [SetReputationData (upd_reputation_data u)] else [])
     @ (case upd_api_response_time u of None \<Rightarrow> [] | Some t \<Rightarrow> [SetApiResponseTime t])
     @ (case upd_quality_score u of None \<Rightarrow> [] | Some q \<Rightarrow> [SetQualityScore q])
     @ (case upd_risk_level u of None \<Rightarrow> [] | Some l \<Rightarrow> [SetRiskLevel l])"

fun assign :: "int \<Rightarrow> assignment \<Rightarrow> row \<Rightarrow> row" where
  "assign dbTime (SetStatus s) r = r\<lparr>col_status := s\<rparr>"
| "assign dbTime (SetValidationData v) r = r\<lparr>col_validation_data := Some v\<rparr>"
| "assign dbTime (SetReputationData v) r = r\<lparr>col_reputation_data := Some v\<rparr>"
| "assign dbTime (SetApiResponseTime t) r = r\<lparr>col_api_response_time := Some t\<rparr>"
| "assign dbTime (SetQualityScore q) r = r\<lparr>col_quality_score := Some q\<rparr>"
| "assign dbTime (SetRiskLevel l) r = r\<lparr>col_risk_level := Some l\<rparr>"
| "assign dbTime SetUpdatedAt r = r\<lparr>col_updated_at := CURRENT_TIMESTAMP dbTime\<rparr>"

text \<open>\<^verbatim>\<open>UPDATE verification_requests SET ... WHERE id = ?\<close>\<close>

definition sql_update :: "int \<Rightarrow> assignment list \<Rightarrow> nat \<Rightarrow> row list \<Rightarrow> row list" where
  "sql_update dbTime set_fields ident db =
     map (\<lambda>r. if col_id r = ident then fold (assign dbTime) set_fields r else r) db"

definition updateVerificationRequest :: "int \<Rightarrow> nat \<Rightarrow> updates \<Rightarrow> row list \<Rightarrow> row list" where
  "updateVerificationRequest dbTime ident u db =
     (let set_fields = update_fields u in
      if length set_fields > 0 then sql_update dbTime (set_fields @ [SetUpdatedAt]) ident db
      else db)"


section \<open>Phone entry point (route.ts)\<close>

text \<open>
  The pattern \<^verbatim>\<open>/^[\+]?[\d\s\-\(\)]{10,}$/\<close>, which has no flag and so matches code
  unit by code unit. The class \<^verbatim>\<open>\d\<close> is the ten ASCII digits. The class
  \<^verbatim>\<open>\s\<close> is the white space and the line terminators of the language: the tab
  (U+0009), the line feed (U+000A), the vertical tab (U+000B), the form feed (U+000C), the
  carriage return (U+000D), the space (U+0020), the no-break space (U+00A0), U+1680, U+2000
  to U+200A, the line and paragraph separators (U+2028, U+2029), U+202F, U+205F, the
  ideographic space (U+3000) and U+FEFF.
\<close>

definition regex_d :: "16 word \<Rightarrow> bool" where
  "regex_d c = (0x30 \<le> c \<and> c \<le> 0x39)"

definition regex_s :: "16 word \<Rightarrow> bool" where
  "regex_s c =
     (c \<in> set [0x09, 0x0A, 0x0B, 0x0C, 0x0D, 0x20, 0xA0, 0x1680, 0x2028, 0x2029, 0x202F,
                0x205F, 0x3000, 0xFEFF]
      \<or> (0x2000 \<le> c \<and> c \<le> 0x200A))"

definition phone_class :: "16 word \<Rightarrow> bool" where
  "phone_class c = (regex_d c \<or> regex_s c \<or> c = 0x2D \<or> c = 0x28 \<or> c = 0x29)"

text \<open>
  The optional \<^verbatim>\<open>+\<close> (U+002B) is not in the class, so a match takes it when it is
  there; what follows, to the end of the text, is ten or more units of the class (the
  hyphen is U+002D, the parentheses U+0028 and U+0029).
\<close>

definition phoneRegex_test :: "jsstring \<Rightarrow> bool" where
  "phoneRegex_test phone =
     (let rest = (case phone of c # cs \<Rightarrow> if c = 0x2B then cs else phone | [] \<Rightarrow> phone)
      in 10 \<le> length rest \<and> list_all phone_class rest)"

text \<open>
  The scoring block (lines 53 to 68), with the status of line 74. Reading a property of
  \<^verbatim>\<open>validationData\<close> throws when the client returned \<^verbatim>\<open>null\<close>.
\<close>

definition phone_score :: "jsval \<Rightarrow> js_error + (rat \<times> risk)" where
  "phone_score validationData =
     (let qualityScore = 8 / 10; riskLevel = Low in
      case getProp validationData ''valid'' of
        Inl e \<Rightarrow> Inl e
      | Inr valid \<Rightarrow>
          if \<not> truthy valid then Inr (1 / 10, High)
          else
            (case getProp validationData ''type'' of
               Inl e \<Rightarrow> Inl e
             | Inr type_v \<Rightarrow>
                 if type_v = JStr (str16 ''Mobile'') then Inr (9 / 10, riskLevel)
                 else if type_v = JStr (str16 ''Landline'') then Inr (7 / 10, riskLevel)
                 else if type_v = JStr (str16 ''Toll_Free'') \<or> type_v = JStr (str16 ''Unknown'')
                   then Inr (5 / 10, Medium)
                 else Inr (qualityScore, riskLevel)))"

definition phone_status :: "jsval \<Rightarrow> js_error + status" where
  "phone_status validationData =
     map_sum id (\<lambda>valid. if truthy valid then Verified else Failed)
       (getProp validationData ''valid'')"

text \<open>\<^verbatim>\<open>request.headers.get(name) || 'unknown'\<close>\<close>

definition header_or_unknown :: "string option \<Rightarrow> string" where
  "header_or_unknown h = (case h of None \<Rightarrow> ''unknown'' | Some v \<Rightarrow> if v = [] then ''unknown'' else v)"

text \<open>The request as the handler reads it: the parsed body and two headers.\<close>

record http_request =
  req_json :: body_json
  req_x_forwarded_for :: "string option"
  req_user_agent :: "string option"

text \<open>
  What the handler reads from outside while it serves one request: the outcomes of its calls
  of \<^verbatim>\<open>fetch\<close>, the text of \<^verbatim>\<open>Math.random().toString(36)\<close>, the offset of the
  server's time zone from UTC (milliseconds, positive to the east), and the clock at the
  start (line 6), at the rate-limit test (line 30), at the insert, at the end (line 88) and
  at the update.
\<close>

record world =
  w_fetch :: "nat \<Rightarrow> fetch_outcome"
  w_random36 :: string
  w_utcOffset :: int
  w_startTime :: int
  w_checkTime :: int
  w_insertTime :: int
  w_endTime :: int
  w_updateTime :: int

text \<open>The JSON of the response: an error message or the success envelope.\<close>

record success =
  out_requestId :: nat
  out_verificationCode :: "string option"
  out_validation :: jsval
  out_qualityScore :: rat
  out_riskLevel :: risk
  out_responseTime :: int

datatype http_body = ErrorBody string | SuccessBody success

text \<open>
  The response, the table after the request, and the external calls and waits made on the
  way.
\<close>

record post_result =
  http_status :: nat
  http_body :: http_body
  db_after :: "row list"
  external_calls :: nat
  external_waits :: "nat list"

definition error_response :: "nat \<Rightarrow> string \<Rightarrow> row list \<Rightarrow> client_result \<Rightarrow> post_result" where
  "error_response code msg db cr =
     \<lparr>http_status = code, http_body = ErrorBody msg, db_after = db,
      external_calls = cr_calls cr, external_waits = cr_waits cr\<rparr>"

definition no_call :: client_result where
  "no_call = \<lparr>cr_result = Inr JUndefined, cr_calls = 0, cr_waits = []\<rparr>"

text \<open>The request the handler passes to \<^verbatim>\<open>createVerificationRequest\<close> (lines 71 to 81).\<close>

definition phone_request ::
  "http_request \<Rightarrow> jsstring \<Rightarrow> jsval \<Rightarrow> status \<Rightarrow> rat \<Rightarrow> risk \<Rightarrow> request_fields" where
  "phone_request request phone validationData st qualityScore riskLevel =
     \<lparr>vr_type = Phone,
      vr_value = phone,
      vr_status = Some st,
      vr_verification_code = None,
      vr_ip_address = Some (header_or_unknown (req_x_forwarded_for request)),
      vr_user_agent = Some (header_or_unknown (req_user_agent request)),
      vr_validation_data = validationData,
      vr_reputation_data = JUndefined,
      vr_api_response_time = Some 0,
      vr_quality_score = Some qualityScore,
      vr_risk_level = Some riskLevel\<rparr>"

text \<open>The object \<^verbatim>\<open>{ api_response_time: responseTime }\<close> of line 91.\<close>

definition response_time_update :: "int \<Rightarrow> updates" where
  "response_time_update responseTime =
     \<lparr>upd_id = None, upd_type = None, upd_value = None, upd_status = None,
      upd_verification_code = None, upd_created_at = None, upd_updated_at = None,
      upd_ip_address = None, upd_user_agent = None, upd_validation_data = JUndefined,
      upd_reputation_data = JUndefined, upd_api_response_time = Some responseTime,
      upd_quality_score = None, upd_risk_level = None\<rparr>"

text \<open>The handler from line 70 on: the insert, the update and the response.\<close>

definition POST_persist ::
  "world \<Rightarrow> http_request \<Rightarrow> jsstring \<Rightarrow> row list \<Rightarrow> client_result \<Rightarrow> jsval \<Rightarrow> status
     \<Rightarrow> rat \<Rightarrow> risk \<Rightarrow> post_result" where
  "POST_persist w request phone db cr validationData st qualityScore riskLevel =
     (case createVerificationRequest (w_random36 w) (w_insertTime w) (w_insertTime w)
             (phone_request request phone validationData st qualityScore riskLevel) db of
        (verificationRequest, db1) \<Rightarrow>
          (let responseTime = w_endTime w - w_startTime w;
               db2 = updateVerificationRequest (w_updateTime w) (vr_id verificationRequest)
                       (response_time_update responseTime) db1
           in \<lparr>http_status = 200,
               http_body = SuccessBody
                 \<lparr>out_requestId = vr_id verificationRequest,
                  out_verificationCode = vr_verification_code verificationRequest,
                  out_validation = validationData,
                  out_qualityScore = qualityScore,
                  out_riskLevel = riskLevel,
                  out_responseTime = responseTime\<rparr>,
               db_after = db2,
               external_calls = cr_calls cr,
               external_waits = cr_waits cr\<rparr>))"

text \<open>
  The handler from line 53 on, after the external client has returned \<open>validationData\<close>:
  the scoring, then the rest.
\<close>

definition POST_validated ::
  "world \<Rightarrow> http_request \<Rightarrow> jsstring \<Rightarrow> row list \<Rightarrow> client_result \<Rightarrow> jsval \<Rightarrow> post_result" where
  "POST_validated w request phone db cr validationData =
     (case phone_score validationData of
        Inl e \<Rightarrow> error_response 500 ''Internal server error'' db cr
      | Inr (qualityScore, riskLevel) \<Rightarrow>
          (case phone_status validationData of
             Inl e \<Rightarrow> error_response 500 ''Internal server error'' db cr
           | Inr st \<Rightarrow>
               POST_persist w request phone db cr validationData st qualityScore riskLevel))"

text \<open>
  The predicate of \<^verbatim>\<open>recentAttempts.find\<close>, and the handler \<^verbatim>\<open>POST\<close>. Any error
  thrown outside the inner \<^verbatim>\<open>try\<close> ends in the outer \<^verbatim>\<open>catch\<close>, with status 500.
  The store itself is taken to answer every statement.
\<close>

definition recent :: "world \<Rightarrow> row \<Rightarrow> bool" where
  "recent w attempt =
     (Date_getTime (w_utcOffset w) (col_created_at attempt) > w_checkTime w - 5 * 60 * 1000)"

definition POST :: "world \<Rightarrow> http_request \<Rightarrow> row list \<Rightarrow> post_result" where
  "POST w request db =
     (case req_json request of
        NotJson m \<Rightarrow> error_response 500 ''Internal server error'' db no_call
      | Parsed body \<Rightarrow>
          (case getProp body ''phone'' of
             Inl e \<Rightarrow> error_response 500 ''Internal server error'' db no_call
           | Inr phone_v \<Rightarrow>
               (case phone_v of
                  JStr phone \<Rightarrow>
                    if phone = [] then
                      error_response 400 ''Valid phone number is required'' db no_call
                    else if \<not> phoneRegex_test phone then
                      error_response 400 ''Invalid phone number format'' db no_call
                    else if find (recent w) (getVerificationRequestsByValue Phone phone db) \<noteq> None
                      then error_response 429
                             ''Please wait before requesting another verification'' db no_call
                    else
                      (let cr = validatePhone phone (w_fetch w) in
                       case cr_result cr of
                         Inl apiError \<Rightarrow>
                           error_response 502
                             ''Failed to validate phone with external service'' db cr
                       | Inr validationData \<Rightarrow>
                           POST_validated w request phone db cr validationData)
                | _ \<Rightarrow> error_response 400 ''Valid phone number is required'' db no_call)))"


section \<open>Vocabulary of the properties\<close>

text \<open>
  The outcomes of a call of \<^verbatim>\<open>fetch\<close> that the retry policy speaks of. A network-level
  failure is a rejected \<^verbatim>\<open>fetch\<close>: a \<^verbatim>\<open>TypeError\<close> (no connection, DNS, reset) or
  the \<^verbatim>\<open>AbortError\<close> of the timeout. A retryable failure is one of these, a response
  with status 500 or more, or one with status 429. A success is a response with
  \<^verbatim>\<open>response.ok\<close> whose body is JSON; for the email call the body also has the two
  properties the client asks for.
\<close>

definition network_failure :: "js_error \<Rightarrow> bool" where
  "network_failure e = (err_name e = ''TypeError'' \<or> err_name e = ''AbortError'')"

definition retryable_failure :: "fetch_outcome \<Rightarrow> bool" where
  "retryable_failure outcome =
     (case outcome of
        Rejects e \<Rightarrow> network_failure e
      | Resolves r \<Rightarrow> 500 \<le> resp_status r \<or> resp_status r = 429)"

definition phone_success :: "fetch_outcome \<Rightarrow> jsval \<Rightarrow> bool" where
  "phone_success outcome data =
     (case outcome of
        Rejects e \<Rightarrow> False
      | Resolves r \<Rightarrow> ok r \<and> resp_json r = Parsed data)"

definition email_success :: "fetch_outcome \<Rightarrow> jsval \<Rightarrow> bool" where
  "email_success outcome data =
     (phone_success outcome data \<and> invalid_structure data = Inr False)"

text \<open>
  The phone pattern in the words of the specification: an optional leading \<^verbatim>\<open>+\<close>, then
  at least 10 characters drawn from digits, spaces, hyphens and parentheses.
\<close>

definition spec_phone_class :: "16 word \<Rightarrow> bool" where
  "spec_phone_class c = (regex_d c \<or> c = 0x20 \<or> c = 0x2D \<or> c = 0x28 \<or> c = 0x29)"

definition spec_phone_pattern :: "jsstring \<Rightarrow> bool" where
  "spec_phone_pattern phone =
     (let rest = (case phone of c # cs \<Rightarrow> if c = 0x2B then cs else phone | [] \<Rightarrow> phone)
      in 10 \<le> length rest \<and> list_all spec_phone_class rest)"

text \<open>
  The text \<^verbatim>\<open>Math.random().toString(36)\<close> gives for a number of the interval from 0
  (included) to 1 (excluded): \<^verbatim>\<open>0\<close>, or \<^verbatim>\<open>0.\<close> and digits of the base 36, in lower
  case. The upper-case digits of the base 36.
\<close>

definition radix36_fraction :: "string \<Rightarrow> bool" where
  "radix36_fraction s =
     (s = ''0'' \<or>
      (take 2 s = ''0.''
       \<and> list_all (\<lambda>c. c \<in> set ''0123456789abcdefghijklmnopqrstuvwxyz'') (drop 2 s)))"

definition base36_upper :: "char \<Rightarrow> bool" where
  "base36_upper c = (c \<in> set ''0123456789ABCDEFGHIJKLMNOPQRSTUVWXYZ'')"


section \<open>Concrete inputs\<close>

text \<open>Responses of the external service, and scripts of successive outcomes.\<close>

definition resp_ok :: "jsval \<Rightarrow> fetch_outcome" where
  "resp_ok data = Resolves \<lparr>resp_status = 200, resp_text = ''{...}'', resp_json = Parsed data\<rparr>"

definition http_failure :: "nat \<Rightarrow> fetch_outcome" where
  "http_failure code =
     Resolves \<lparr>resp_status = code, resp_text = ''upstream said no'',
               resp_json = NotJson ''Unexpected token u in JSON at position 0''\<rparr>"

definition script :: "fetch_outcome list \<Rightarrow> fetch_outcome \<Rightarrow> nat \<Rightarrow> fetch_outcome" where
  "script outcomes rest n = (if 1 \<le> n \<and> n \<le> length outcomes then outcomes ! (n - 1) else rest)"

definition phone_payload :: "bool \<Rightarrow> string \<Rightarrow> jsval" where
  "phone_payload valid type_s =
     JObj [(str16 ''phone'', JStr (str16 ''14152007986'')), (str16 ''valid'', JBool valid),
           (str16 ''location'', JStr (str16 ''California'')),
           (str16 ''type'', JStr (str16 type_s)),
           (str16 ''carrier'', JStr (str16 ''T-Mobile USA, Inc.''))]"

definition email_payload :: jsval where
  "email_payload =
     JObj [(str16 ''email_address'', JStr (str16 ''test@example.com'')),
           (str16 ''email_deliverability'',
              JObj [(str16 ''status'', JStr (str16 ''deliverable''))]),
           (str16 ''email_quality'', JObj [(str16 ''score'', JNum (85 / 100))])]"

text \<open>A request for a phone number, a clock and a random text, and two tables.\<close>

definition good_phone :: jsstring where
  "good_phone = str16 ''+1 (415) 200-7986''"

definition tabbed_phone :: jsstring where
  "tabbed_phone = str16 ''415'' @ [0x09] @ str16 ''200'' @ [0x09] @ str16 ''7986''"

text \<open>Ten ideographic spaces; an address; a text with a high surrogate and no low one.\<close>

definition blank_phone :: jsstring where
  "blank_phone = replicate 10 0x3000"

definition good_email :: jsstring where
  "good_email = str16 ''test@example.com''"

definition lone_surrogate :: jsstring where
  "lone_surrogate = str16 ''a'' @ [0xD83D] @ str16 ''@example.com''"

definition phone_req :: "jsval \<Rightarrow> http_request" where
  "phone_req v =
     \<lparr>req_json = Parsed (JObj [(str16 ''phone'', v)]),
      req_x_forwarded_for = Some ''203.0.113.7'',
      req_user_agent = None\<rparr>"

definition world_with :: "(nat \<Rightarrow> fetch_outcome) \<Rightarrow> world" where
  "world_with f =
     \<lparr>w_fetch = f, w_random36 = ''0.4fzyo82mvyr'', w_utcOffset = 0,
      w_startTime = 1700000000000, w_checkTime = 1700000000002,
      w_insertTime = 1700000003400, w_endTime = 1700000003405,
      w_updateTime = 1700000003406\<rparr>"

text \<open>A second request, \<open>ms\<close> milliseconds after the first is stored.\<close>

definition later_world :: "int \<Rightarrow> world" where
  "later_world ms =
     (world_with (script [] (resp_ok (phone_payload True ''Mobile''))))
       \<lparr>w_startTime := 1700000003000 + ms, w_checkTime := 1700000003000 + ms + 2,
        w_insertTime := 1700000003000 + ms + 400, w_endTime := 1700000003000 + ms + 405,
        w_updateTime := 1700000003000 + ms + 406\<rparr>"

definition sample_row :: "nat \<Rightarrow> jsstring \<Rightarrow> int \<Rightarrow> row" where
  "sample_row ident phone created =
     \<lparr>col_id = ident, col_type = Phone, col_value = phone, col_status = Verified,
      col_verification_code = Some ''K3Q9ZD'', col_created_at = created,
      col_updated_at = created, col_ip_address = Some ''unknown'',
      col_user_agent = Some ''unknown'',
      col_validation_data = Some (phone_payload True ''Mobile''),
      col_reputation_data = None, col_api_response_time = Some 412,
      col_quality_score = Some (9 / 10), col_risk_level = Some Low\<rparr>"

definition sample_request :: request_fields where
  "sample_request =
     \<lparr>vr_type = Email, vr_value = str16 ''test@example.com'', vr_status = None,
      vr_verification_code = Some ''CHOSEN'', vr_ip_address = None, vr_user_agent = None,
      vr_validation_data = JUndefined, vr_reputation_data = JUndefined,
      vr_api_response_time = Some 0, vr_quality_score = Some 0, vr_risk_level = None\<rparr>"

definition status_update :: updates where
  "status_update = (response_time_update 0)\<lparr>upd_status := Some Failed,
     upd_api_response_time := None, upd_value := Some (str16 ''other''), upd_id := Some 9\<rparr>"


section \<open>Strings\<close>

lemma unit_of_char_inj: "inj (\<lambda>c::char. (of_nat (of_char c) :: 16 word))"
proof (rule injI)
  fix x y :: char
  have b: "\<And>c::char. (of_char c :: nat) < 65536"
    by (rule less_trans [OF nat_of_char_less_256]) simp
  have u: "\<And>c::char. unat (of_nat (of_char c) :: 16 word) = of_char c"
    using b by (simp add: unat_of_nat)
  assume "(of_nat (of_char x) :: 16 word) = of_nat (of_char y)"
  then have "unat (of_nat (of_char x) :: 16 word) = unat (of_nat (of_char y) :: 16 word)"
    by simp
  then have "(of_char x :: nat) = of_char y"
    by (simp only: u)
  then show "x = y" by simp
qed

lemma str16_eq_iff [simp]: "(str16 a = str16 b) = (a = b)"
  unfolding str16_def by (simp add: inj_map_eq_map [OF unit_of_char_inj])

lemma phone_class_not_surrogate:
  "phone_class c \<Longrightarrow> \<not> is_high_surrogate c \<and> \<not> is_low_surrogate c"
  unfolding phone_class_def regex_d_def regex_s_def is_high_surrogate_def is_low_surrogate_def
  by (auto simp: word_le_nat_alt)

lemma well_formed_no_surrogate:
  "list_all (\<lambda>c. \<not> is_high_surrogate c \<and> \<not> is_low_surrogate c) cs \<Longrightarrow> well_formed cs"
  by (induction cs rule: well_formed.induct) simp_all

lemma phoneRegex_well_formed: "phoneRegex_test phone \<Longrightarrow> well_formed phone"
proof -
  assume a: "phoneRegex_test phone"
  have plus: "\<not> is_high_surrogate (0x2B :: 16 word) \<and> \<not> is_low_surrogate (0x2B :: 16 word)"
    by (simp add: is_high_surrogate_def is_low_surrogate_def)
  have "list_all (\<lambda>c. \<not> is_high_surrogate c \<and> \<not> is_low_surrogate c) phone"
    using a plus phone_class_not_surrogate
    by (cases phone) (auto simp: phoneRegex_test_def list_all_iff split: if_splits)
  then show ?thesis by (rule well_formed_no_surrogate)
qed

section \<open>The retry loops, unrolled\<close>

lemma validatePhone_unfold:
  assumes "well_formed phone"
  shows "validatePhone phone f =
     (case fst (validatePhone_attempt phone (f 1) 1) of
        Return d \<Rightarrow> \<lparr>cr_result = Inr d, cr_calls = 1, cr_waits = []\<rparr>
      | Throw e \<Rightarrow> \<lparr>cr_result = Inl e, cr_calls = 1, cr_waits = []\<rparr>
      | Continue w1 \<Rightarrow>
          (case fst (validatePhone_attempt phone (f 2) 2) of
             Return d \<Rightarrow> \<lparr>cr_result = Inr d, cr_calls = 2, cr_waits = waited w1\<rparr>
           | Throw e \<Rightarrow> \<lparr>cr_result = Inl e, cr_calls = 2, cr_waits = waited w1\<rparr>
           | Continue w2 \<Rightarrow>
               (case fst (validatePhone_attempt phone (f 3) 3) of
                  Return d \<Rightarrow>
                    \<lparr>cr_result = Inr d, cr_calls = 3, cr_waits = waited w1 @ waited w2\<rparr>
                | Throw e \<Rightarrow>
                    \<lparr>cr_result = Inl e, cr_calls = 3, cr_waits = waited w1 @ waited w2\<rparr>
                | Continue w3 \<Rightarrow>
                    \<lparr>cr_result = Inl (JsError ''Error'' ''Failed to validate phone with Abstract API''),
                     cr_calls = 3, cr_waits = waited w1 @ waited w2 @ waited w3\<rparr>)))"
proof -
  have called: "\<And>outcome a. snd (validatePhone_attempt phone outcome a) = True"
    using assms
    by (simp add: validatePhone_attempt_def validatePhone_try_def encodeURIComponent_error_def
        split: sum.splits)
  have step: "\<And>a c ws. a \<le> 3 \<Longrightarrow> validatePhone_loop phone f a c ws =
      (case fst (validatePhone_attempt phone (f (Suc c)) a) of
         Return d \<Rightarrow> \<lparr>cr_result = Inr d, cr_calls = Suc c, cr_waits = ws\<rparr>
       | Throw e \<Rightarrow> \<lparr>cr_result = Inl e, cr_calls = Suc c, cr_waits = ws\<rparr>
       | Continue w \<Rightarrow> validatePhone_loop phone f (Suc a) (Suc c) (ws @ waited w))"
    using called
    by (subst validatePhone_loop.simps)
      (simp add: maxRetries_def split_beta split: step.splits)
  have stop: "\<And>a c ws. \<not> a \<le> 3 \<Longrightarrow> validatePhone_loop phone f a c ws =
      \<lparr>cr_result = Inl (JsError ''Error'' ''Failed to validate phone with Abstract API''),
       cr_calls = c, cr_waits = ws\<rparr>"
    by (subst validatePhone_loop.simps) (simp add: maxRetries_def)
  show ?thesis
    by (simp add: validatePhone_def step stop numeral_2_eq_2 numeral_3_eq_3
        split: step.splits)
qed

lemma phone_attempt_retryable:
  assumes "retryable_failure outcome" and "attempt \<noteq> maxRetries" and "well_formed phone"
  shows "fst (validatePhone_attempt phone outcome attempt) = Continue (Some (delay attempt))"
  using assms
  by (auto simp: retryable_failure_def network_failure_def validatePhone_attempt_def
      validatePhone_try_def validatePhone_response_def encodeURIComponent_error_def
      validatePhone_catch_def ok_def split: fetch_outcome.splits)

lemma phone_attempt_retryable_last:
  assumes "retryable_failure outcome" and "well_formed phone"
  shows "\<exists>e. fst (validatePhone_attempt phone outcome maxRetries) = Throw e"
  using assms
  by (auto simp: retryable_failure_def network_failure_def validatePhone_attempt_def
      validatePhone_try_def validatePhone_response_def encodeURIComponent_error_def
      validatePhone_catch_def ok_def split: fetch_outcome.splits)

lemma phone_attempt_success:
  assumes "phone_success outcome data" and "well_formed phone"
  shows "fst (validatePhone_attempt phone outcome attempt) = Return data"
  using assms
  by (auto simp: phone_success_def validatePhone_attempt_def validatePhone_try_def
      validatePhone_response_def encodeURIComponent_error_def split: fetch_outcome.splits)

lemma phone_calls_le: "well_formed phone \<Longrightarrow> cr_calls (validatePhone phone f) \<le> 3"
  by (simp add: validatePhone_unfold split: step.splits)

lemma phone_retry_success:
  assumes k: "k \<in> {1, 2, 3}"
    and fail: "\<forall>i \<in> {1..<k}. retryable_failure (f i)"
    and succ: "phone_success (f k) data"
    and wf: "well_formed phone"
  shows "validatePhone phone f =
     \<lparr>cr_result = Inr data, cr_calls = k, cr_waits = map delay [1..<k]\<rparr>"
proof -
  consider "k = 1" | "k = 2" | "k = 3" using k by auto
  then show ?thesis
  proof cases
    case 1
    with succ wf show ?thesis
      by (simp add: validatePhone_unfold phone_attempt_success)
  next
    case 2
    with fail have "retryable_failure (f 1)" by simp
    with 2 succ wf show ?thesis
      by (simp add: validatePhone_unfold phone_attempt_success phone_attempt_retryable
          maxRetries_def waited_def upt_rec delay_def)
  next
    case 3
    with fail have "retryable_failure (f 1)" "retryable_failure (f 2)" by simp_all
    with 3 succ wf show ?thesis
      by (simp add: validatePhone_unfold phone_attempt_success phone_attempt_retryable
          maxRetries_def waited_def upt_rec delay_def)
  qed
qed

lemma phone_retry_exhausted:
  assumes fail: "\<forall>i \<in> {1..3}. retryable_failure (f i)" and wf: "well_formed phone"
  shows "isl (cr_result (validatePhone phone f)) \<and> cr_calls (validatePhone phone f) = 3
       \<and> cr_waits (validatePhone phone f) = [delay 1, delay 2]"
proof -
  from fail have f: "retryable_failure (f 1)" "retryable_failure (f 2)" "retryable_failure (f 3)"
    by simp_all
  obtain e where "fst (validatePhone_attempt phone (f 3) 3) = Throw e"
    using phone_attempt_retryable_last [OF f(3) wf] by (auto simp: maxRetries_def)
  with f wf show ?thesis
    by (simp add: validatePhone_unfold phone_attempt_retryable maxRetries_def waited_def)
qed

lemma validateEmail_unfold:
  assumes "key \<noteq> []" and "well_formed email"
  shows "validateEmail key email f =
     (case fst (validateEmail_attempt key email (f 1) 1) of
        Return d \<Rightarrow> \<lparr>cr_result = Inr d, cr_calls = 1, cr_waits = []\<rparr>
      | Throw e \<Rightarrow> \<lparr>cr_result = Inl e, cr_calls = 1, cr_waits = []\<rparr>
      | Continue w1 \<Rightarrow>
          (case fst (validateEmail_attempt key email (f 2) 2) of
             Return d \<Rightarrow> \<lparr>cr_result = Inr d, cr_calls = 2, cr_waits = waited w1\<rparr>
           | Throw e \<Rightarrow> \<lparr>cr_result = Inl e, cr_calls = 2, cr_waits = waited w1\<rparr>
           | Continue w2 \<Rightarrow>
               (case fst (validateEmail_attempt key email (f 3) 3) of
                  Return d \<Rightarrow>
                    \<lparr>cr_result = Inr d, cr_calls = 3, cr_waits = waited w1 @ waited w2\<rparr>
                | Throw e \<Rightarrow>
                    \<lparr>cr_result = Inl e, cr_calls = 3, cr_waits = waited w1 @ waited w2\<rparr>
                | Continue w3 \<Rightarrow>
                    \<lparr>cr_result = Inl (JsError ''Error'' ''Failed to validate email with Abstract API''),
                     cr_calls = 3, cr_waits = waited w1 @ waited w2 @ waited w3\<rparr>)))"
proof -
  have called: "\<And>outcome a. snd (validateEmail_attempt key email outcome a) = True"
    using assms
    by (simp add: validateEmail_attempt_def validateEmail_try_def encodeURIComponent_error_def
        split: sum.splits)
  have step: "\<And>a c ws. a \<le> 3 \<Longrightarrow> validateEmail_loop key email f a c ws =
      (case fst (validateEmail_attempt key email (f (Suc c)) a) of
         Return d \<Rightarrow> \<lparr>cr_result = Inr d, cr_calls = Suc c, cr_waits = ws\<rparr>
       | Throw e \<Rightarrow> \<lparr>cr_result = Inl e, cr_calls = Suc c, cr_waits = ws\<rparr>
       | Continue w \<Rightarrow> validateEmail_loop key email f (Suc a) (Suc c) (ws @ waited w))"
    using called
    by (subst validateEmail_loop.simps)
      (simp add: maxRetries_def split_beta split: step.splits)
  have stop: "\<And>a c ws. \<not> a \<le> 3 \<Longrightarrow> validateEmail_loop key email f a c ws =
      \<lparr>cr_result = Inl (JsError ''Error'' ''Failed to validate email with Abstract API''),
       cr_calls = c, cr_waits = ws\<rparr>"
    by (subst validateEmail_loop.simps) (simp add: maxRetries_def)
  show ?thesis
    by (simp add: validateEmail_def step stop numeral_2_eq_2 numeral_3_eq_3
        split: step.splits)
qed

lemma email_attempt_retryable:
  assumes "retryable_failure outcome" and "attempt \<noteq> maxRetries" and "key \<noteq> []"
    and "well_formed email"
  shows "fst (validateEmail_attempt key email outcome attempt) = Continue (Some (delay attempt))"
  using assms
  by (auto simp: retryable_failure_def network_failure_def validateEmail_attempt_def
      validateEmail_try_def validateEmail_response_def encodeURIComponent_error_def
      validateEmail_catch_def ok_def split: fetch_outcome.splits)

lemma email_attempt_retryable_last:
  assumes "retryable_failure outcome" and "key \<noteq> []" and "well_formed email"
  shows "\<exists>e. fst (validateEmail_attempt key email outcome maxRetries) = Throw e"
  using assms
  by (auto simp: retryable_failure_def network_failure_def validateEmail_attempt_def
      validateEmail_try_def validateEmail_response_def encodeURIComponent_error_def
      validateEmail_catch_def ok_def maxRetries_def
      split: fetch_outcome.splits)

lemma email_attempt_success:
  assumes "email_success outcome data" and "key \<noteq> []" and "well_formed email"
  shows "fst (validateEmail_attempt key email outcome attempt) = Return data"
  using assms
  by (auto simp: email_success_def phone_success_def validateEmail_attempt_def
      validateEmail_try_def validateEmail_response_def encodeURIComponent_error_def
      split: fetch_outcome.splits)

lemma email_calls_le:
  "key \<noteq> [] \<Longrightarrow> well_formed email \<Longrightarrow> cr_calls (validateEmail key email f) \<le> 3"
  by (simp add: validateEmail_unfold split: step.splits)

lemma email_retry_success:
  assumes k: "k \<in> {1, 2, 3}"
    and fail: "\<forall>i \<in> {1..<k}. retryable_failure (f i)"
    and succ: "email_success (f k) data"
    and key: "key \<noteq> []" "well_formed email"
  shows "validateEmail key email f =
     \<lparr>cr_result = Inr data, cr_calls = k, cr_waits = map delay [1..<k]\<rparr>"
proof -
  consider "k = 1" | "k = 2" | "k = 3" using k by auto
  then show ?thesis
  proof cases
    case 1
    with succ key show ?thesis
      by (simp add: validateEmail_unfold email_attempt_success)
  next
    case 2
    with fail have "retryable_failure (f 1)" by simp
    with 2 succ key show ?thesis
      by (simp add: validateEmail_unfold email_attempt_success email_attempt_retryable
          maxRetries_def waited_def upt_rec delay_def)
  next
    case 3
    with fail have "retryable_failure (f 1)" "retryable_failure (f 2)" by simp_all
    with 3 succ key show ?thesis
      by (simp add: validateEmail_unfold email_attempt_success email_attempt_retryable
          maxRetries_def waited_def upt_rec delay_def)
  qed
qed

lemma email_retry_exhausted:
  assumes fail: "\<forall>i \<in> {1..3}. retryable_failure (f i)"
    and key: "key \<noteq> []" "well_formed email"
  shows "isl (cr_result (validateEmail key email f)) \<and> cr_calls (validateEmail key email f) = 3
       \<and> cr_waits (validateEmail key email f) = [delay 1, delay 2]"
proof -
  from fail have f: "retryable_failure (f 1)" "retryable_failure (f 2)" "retryable_failure (f 3)"
    by simp_all
  obtain e where "fst (validateEmail_attempt key email (f 3) 3) = Throw e"
    using email_attempt_retryable_last [OF f(3) key] by (auto simp: maxRetries_def)
  with f key show ?thesis
    by (simp add: validateEmail_unfold email_attempt_retryable maxRetries_def waited_def)
qed

lemma phone_calls_ge: "well_formed phone \<Longrightarrow> 1 \<le> cr_calls (validatePhone phone f)"
  by (simp add: validatePhone_unfold split: step.splits)

lemma delay_fun: "delay = (\<lambda>attempt. min (1000 * 2 ^ (attempt - 1)) 5000)"
  by (rule ext) (simp add: delay_def)

section \<open>Facts about the store\<close>

lemma assign_all:
  "fold (assign t) (update_fields u) r =
     r\<lparr>col_status := (case upd_status u of None \<Rightarrow> col_status r | Some s \<Rightarrow> s),
       col_validation_data :=
         (if upd_validation_data u \<noteq> JUndefined then Some (upd_validation_data u)
          else col_validation_data r),
       col_reputation_data :=
         (if upd_reputation_data u \<noteq> JUndefined then Some (upd_reputation_data u)
          else col_reputation_data r),
       col_api_response_time :=
         (case upd_api_response_time u of None \<Rightarrow> col_api_response_time r | Some x \<Rightarrow> Some x),
       col_quality_score :=
         (case upd_quality_score u of None \<Rightarrow> col_quality_score r | Some x \<Rightarrow> Some x),
       col_risk_level :=
         (case upd_risk_level u of None \<Rightarrow> col_risk_level r | Some x \<Rightarrow> Some x)\<rparr>"
  by (simp add: update_fields_def split: option.splits)

lemma update_row:
  "updateVerificationRequest t ident u db =
     map (\<lambda>r. if col_id r = ident \<and> update_fields u \<noteq> []
               then fold (assign t) (update_fields u @ [SetUpdatedAt]) r else r) db"
  by (simp add: updateVerificationRequest_def sql_update_def Let_def)

lemma update_fields_empty:
  "(update_fields u = []) =
     (upd_status u = None \<and> upd_validation_data u = JUndefined
      \<and> upd_reputation_data u = JUndefined \<and> upd_api_response_time u = None
      \<and> upd_quality_score u = None \<and> upd_risk_level u = None)"
  by (simp add: update_fields_def split: option.splits)

lemma update_unknown_id:
  assumes "ident \<notin> col_id ` set db"
  shows "updateVerificationRequest t ident u db = db"
  using assms by (induction db) (auto simp: update_row)

lemma toUpperCase_base36:
  assumes "c \<in> set ''0123456789abcdefghijklmnopqrstuvwxyz''"
  shows "base36_upper (toUpperCase_char c)"
  using assms by (auto simp: toUpperCase_char_def base36_upper_def)

lemma verificationCode_alphabet:
  assumes "radix36_fraction s"
  shows "length (verificationCode s) \<le> 6 \<and> list_all base36_upper (verificationCode s)"
proof -
  have "list_all (\<lambda>c. c \<in> set ''0123456789abcdefghijklmnopqrstuvwxyz'') (drop 2 s)"
    using assms by (auto simp: radix36_fraction_def)
  then have "list_all (\<lambda>c. c \<in> set ''0123456789abcdefghijklmnopqrstuvwxyz'')
      (substring_2_8 s)"
    unfolding substring_2_8_def list_all_iff by (meson in_set_takeD)
  then have "list_all base36_upper (verificationCode s)"
    unfolding verificationCode_def toUpperCase_def list_all_iff
    using toUpperCase_base36 by auto
  then show ?thesis
    by (simp add: verificationCode_def toUpperCase_def substring_2_8_def)
qed

section \<open>Facts about the handler\<close>

lemma getProp_total:
  assumes "getProp d k = Inr v"
  shows "\<exists>v'. getProp d k' = Inr v'"
  using assms by (cases d) simp_all

lemma col_id_less_lastID:
  assumes "r \<in> set db"
  shows "col_id r < lastID db"
  using assms by (induction db) (auto simp: lastID_def)

lemma sql_update_fresh:
  assumes "\<forall>r \<in> set db. col_id r \<noteq> ident"
  shows "sql_update t fs ident db = db"
  using assms by (induction db) (simp_all add: sql_update_def)

lemma sql_update_appended:
  assumes "col_id r = lastID db"
  shows "sql_update t fs (lastID db) (db @ [r]) = db @ [fold (assign t) fs r]"
proof -
  have "\<forall>x \<in> set db. col_id x \<noteq> lastID db"
    using col_id_less_lastID by fastforce
  then have "sql_update t fs (lastID db) db = db"
    by (rule sql_update_fresh)
  with assms show ?thesis
    by (simp add: sql_update_def)
qed

lemma phoneRegex_nonempty: "phoneRegex_test phone \<Longrightarrow> phone \<noteq> []"
  by (auto simp: phoneRegex_test_def)

lemma find_recent_iff:
  "(find (recent w) (getVerificationRequestsByValue Phone phone db) \<noteq> None) =
     (\<exists>attempt \<in> set db. col_type attempt = Phone \<and> col_value attempt = phone
        \<and> w_checkTime w - 5 * 60 * 1000
            < Date_getTime (w_utcOffset w) (col_created_at attempt))"
  by (auto simp: find_None_iff getVerificationRequestsByValue_def recent_def)

lemma POST_rate_limited:
  assumes "req_json request = Parsed body"
    and "getProp body ''phone'' = Inr (JStr phone)"
    and "phoneRegex_test phone"
    and "find (recent w) (getVerificationRequestsByValue Phone phone db) \<noteq> None"
  shows "http_status (POST w request db) = 429 \<and> db_after (POST w request db) = db
       \<and> external_calls (POST w request db) = 0"
  using assms phoneRegex_nonempty [OF assms(3)]
  by (simp add: POST_def error_response_def no_call_def)

lemma POST_accepted:
  assumes "req_json request = Parsed body"
    and "getProp body ''phone'' = Inr (JStr phone)"
    and "phoneRegex_test phone"
    and "\<forall>attempt \<in> set db. col_type attempt = Phone \<and> col_value attempt = phone
           \<longrightarrow> \<not> w_checkTime w - 5 * 60 * 1000
                 < Date_getTime (w_utcOffset w) (col_created_at attempt)"
  shows "POST w request db =
     (let cr = validatePhone phone (w_fetch w) in
      case cr_result cr of
        Inl apiError \<Rightarrow>
          error_response 502 ''Failed to validate phone with external service'' db cr
      | Inr validationData \<Rightarrow> POST_validated w request phone db cr validationData)"
proof -
  have "\<not> find (recent w) (getVerificationRequestsByValue Phone phone db) \<noteq> None"
    using assms(4) by (simp only: find_recent_iff) blast
  with assms(1-3) phoneRegex_nonempty [OF assms(3)] show ?thesis
    by (simp add: POST_def)
qed

lemma POST_persist_eq:
  "POST_persist w request phone db cr validationData st q l =
     \<lparr>http_status = 200,
      http_body = SuccessBody
        \<lparr>out_requestId = lastID db,
         out_verificationCode = Some (verificationCode (w_random36 w)),
         out_validation = validationData, out_qualityScore = q, out_riskLevel = l,
         out_responseTime = w_endTime w - w_startTime w\<rparr>,
      db_after =
        db @ [(inserted_row (w_random36 w) (w_insertTime w)
                (phone_request request phone validationData st q l) db)
              \<lparr>col_api_response_time := Some (w_endTime w - w_startTime w),
               col_updated_at := CURRENT_TIMESTAMP (w_updateTime w)\<rparr>],
      external_calls = cr_calls cr, external_waits = cr_waits cr\<rparr>"
proof -
  define rq where "rq = phone_request request phone validationData st q l"
  define new_row where "new_row = inserted_row (w_random36 w) (w_insertTime w) rq db"
  define created where "created =
    createVerificationRequest (w_random36 w) (w_insertTime w) (w_insertTime w) rq db"
  have id_new: "col_id new_row = lastID db"
    by (simp add: new_row_def inserted_row_def)
  have vr: "vr_id (fst created) = lastID db"
    "vr_verification_code (fst created) = Some (verificationCode (w_random36 w))"
    by (simp_all add: created_def createVerificationRequest_def request_fields.defs
        VerificationRequest.defs)
  have db1: "snd created = db @ [new_row]"
    by (simp add: created_def createVerificationRequest_def new_row_def)
  have updated: "updateVerificationRequest (w_updateTime w) (lastID db)
      (response_time_update (w_endTime w - w_startTime w)) (db @ [new_row]) =
      db @ [new_row\<lparr>col_api_response_time := Some (w_endTime w - w_startTime w),
                      col_updated_at := CURRENT_TIMESTAMP (w_updateTime w)\<rparr>]"
    by (simp add: updateVerificationRequest_def update_fields_def response_time_update_def
        sql_update_appended [OF id_new])
  show ?thesis
    unfolding POST_persist_def rq_def [symmetric] created_def [symmetric]
      new_row_def [symmetric]
    by (simp add: split_beta Let_def vr db1 updated)
qed

lemma POST_validated_success:
  assumes "getProp validationData ''valid'' = Inr valid"
  shows "\<exists>q l. phone_score validationData = Inr (q, l) \<and>
     POST_validated w request phone db cr validationData =
       POST_persist w request phone db cr validationData
         (if truthy valid then Verified else Failed) q l"
proof -
  obtain type_v where t: "getProp validationData ''type'' = Inr type_v"
    using getProp_total [OF assms] by blast
  have "\<not> isl (phone_score validationData)"
    using assms t by (simp add: phone_score_def)
  then obtain q l where s: "phone_score validationData = Inr (q, l)"
    by (cases "phone_score validationData") auto
  have st: "phone_status validationData = Inr (if truthy valid then Verified else Failed)"
    using assms by (simp add: phone_status_def)
  show ?thesis
    by (simp add: POST_validated_def s st)
qed

section \<open>Scoring of a phone payload\<close>

text \<open>
  C4. For every phone validation payload the scoring block returns, by the first rule that
  matches: not valid, score 0.1 and risk high; type Mobile, 0.9 and low; type Landline, 0.7
  and low; type Toll_Free or Unknown, 0.5 and medium; any other valid type, 0.8 and low.
  A payload is any value with properties (anything but \<^verbatim>\<open>null\<close>), \<open>valid\<close> is the
  truth value JavaScript gives its property \<^verbatim>\<open>valid\<close>, and the type is compared with
  \<^verbatim>\<open>===\<close>.
\<close>

theorem phone_score_table:
  assumes "getProp validationData ''valid'' = Inr valid"
    and "getProp validationData ''type'' = Inr type_v"
  shows "(\<not> truthy valid \<longrightarrow> phone_score validationData = Inr (1 / 10, High))
       \<and> (truthy valid \<and> type_v = JStr (str16 ''Mobile'') \<longrightarrow>
            phone_score validationData = Inr (9 / 10, Low))
       \<and> (truthy valid \<and> type_v = JStr (str16 ''Landline'') \<longrightarrow>
            phone_score validationData = Inr (7 / 10, Low))
       \<and> (truthy valid \<and> (type_v = JStr (str16 ''Toll_Free'') \<or> type_v = JStr (str16 ''Unknown'')) \<longrightarrow>
            phone_score validationData = Inr (5 / 10, Medium))
       \<and> (truthy valid \<and> type_v \<noteq> JStr (str16 ''Mobile'') \<and> type_v \<noteq> JStr (str16 ''Landline'')
            \<and> type_v \<noteq> JStr (str16 ''Toll_Free'') \<and> type_v \<noteq> JStr (str16 ''Unknown'') \<longrightarrow>
            phone_score validationData = Inr (8 / 10, Low))"
  using assms by (simp add: phone_score_def)

theorem phone_score_table_witness:
  "getProp (phone_payload True ''Satellite'') ''valid'' = Inr (JBool True)
   \<and> getProp (phone_payload True ''Satellite'') ''type'' = Inr (JStr (str16 ''Satellite''))
   \<and> phone_score (phone_payload True ''Satellite'') = Inr (8 / 10, Low)
   \<and> phone_score (phone_payload True ''Mobile'') = Inr (9 / 10, Low)
   \<and> phone_score (phone_payload True ''Landline'') = Inr (7 / 10, Low)
   \<and> phone_score (phone_payload True ''Toll_Free'') = Inr (5 / 10, Medium)
   \<and> phone_score (phone_payload True ''Unknown'') = Inr (5 / 10, Medium)
   \<and> phone_score (phone_payload False ''Mobile'') = Inr (1 / 10, High)"
proof -
  have v: "\<And>b t. getProp (phone_payload b t) ''valid'' = Inr (JBool b)"
    and t: "\<And>b t. getProp (phone_payload b t) ''type'' = Inr (JStr (str16 t))"
    by (simp_all add: phone_payload_def)
  show ?thesis
    using phone_score_table [OF v t, of True "''Satellite''"]
      phone_score_table [OF v t, of True "''Mobile''"]
      phone_score_table [OF v t, of True "''Landline''"]
      phone_score_table [OF v t, of True "''Toll_Free''"]
      phone_score_table [OF v t, of True "''Unknown''"]
      phone_score_table [OF v t, of False "''Mobile''"]
    by (simp add: v t)
qed


section \<open>Retry and backoff\<close>

text \<open>
  C5. For every external validation call, retryable failures (HTTP status 500 or more,
  status 429, or a network-level failure) are retried up to 3 attempts in total, with a wait
  of \<open>min (1000 * 2 ^ (attempt - 1)) 5000\<close> milliseconds between retries (1000 after attempt
  1, 2000 after attempt 2, none after the last attempt); two responses 503 followed by a
  success give exactly 3 external calls and a success. Stated for \<^const>\<open>validatePhone\<close>
  and for \<^const>\<open>validateEmail\<close>, for a call that reaches the external service: the
  API key of the email call is set and the value can be encoded in the URL (it has no
  surrogate outside a pair), for otherwise the client throws before it calls. Neither makes
  more than 3 calls; when the outcomes before the \<open>k\<close>-th are retryable failures and the
  \<open>k\<close>-th is a success, the call returns its payload after \<open>k\<close> calls and the waits of the
  attempts before; when all three outcomes are retryable failures the call fails after 3
  calls and the waits 1000 and 2000.
\<close>

theorem retry_backoff:
  assumes "emailApiKey \<noteq> []" and "well_formed email" and "well_formed phone"
  shows "cr_calls (validatePhone phone f) \<le> 3
       \<and> cr_calls (validateEmail emailApiKey email f) \<le> 3
       \<and> (\<forall>k \<in> {1, 2, 3}. (\<forall>i \<in> {1..<k}. retryable_failure (f i)) \<longrightarrow>
            (\<forall>data. phone_success (f k) data \<longrightarrow>
               validatePhone phone f =
                 \<lparr>cr_result = Inr data, cr_calls = k,
                  cr_waits = map (\<lambda>attempt. min (1000 * 2 ^ (attempt - 1)) 5000) [1..<k]\<rparr>)
          \<and> (\<forall>data. email_success (f k) data \<longrightarrow>
               validateEmail emailApiKey email f =
                 \<lparr>cr_result = Inr data, cr_calls = k,
                  cr_waits = map (\<lambda>attempt. min (1000 * 2 ^ (attempt - 1)) 5000) [1..<k]\<rparr>))
       \<and> ((\<forall>i \<in> {1..3}. retryable_failure (f i)) \<longrightarrow>
            isl (cr_result (validatePhone phone f)) \<and> cr_calls (validatePhone phone f) = 3
          \<and> cr_waits (validatePhone phone f) = [1000, 2000]
          \<and> isl (cr_result (validateEmail emailApiKey email f))
          \<and> cr_calls (validateEmail emailApiKey email f) = 3
          \<and> cr_waits (validateEmail emailApiKey email f) = [1000, 2000])"
proof (intro conjI ballI allI impI)
  show "cr_calls (validatePhone phone f) \<le> 3"
    using assms(3) by (rule phone_calls_le)
  show "cr_calls (validateEmail emailApiKey email f) \<le> 3"
    using assms(1,2) by (rule email_calls_le)
next
  fix k data
  assume k: "k \<in> {1, 2, 3}" and fail: "\<forall>i \<in> {1..<k}. retryable_failure (f i)"
  show "validatePhone phone f =
      \<lparr>cr_result = Inr data, cr_calls = k,
       cr_waits = map (\<lambda>attempt. min (1000 * 2 ^ (attempt - 1)) 5000) [1..<k]\<rparr>"
    if "phone_success (f k) data"
    using phone_retry_success [OF k fail that assms(3)] by (simp only: delay_fun)
  show "validateEmail emailApiKey email f =
      \<lparr>cr_result = Inr data, cr_calls = k,
       cr_waits = map (\<lambda>attempt. min (1000 * 2 ^ (attempt - 1)) 5000) [1..<k]\<rparr>"
    if "email_success (f k) data"
    using email_retry_success [OF k fail that assms(1,2)] by (simp only: delay_fun)
next
  assume fail: "\<forall>i \<in> {1..3}. retryable_failure (f i)"
  show "isl (cr_result (validatePhone phone f))" "cr_calls (validatePhone phone f) = 3"
    "cr_waits (validatePhone phone f) = [1000, 2000]"
    using phone_retry_exhausted [OF fail assms(3)] by (simp_all add: delay_def)
  show "isl (cr_result (validateEmail emailApiKey email f))"
    "cr_calls (validateEmail emailApiKey email f) = 3"
    "cr_waits (validateEmail emailApiKey email f) = [1000, 2000]"
    using email_retry_exhausted [OF fail assms(1,2)] by (simp_all add: delay_def)
qed

theorem retry_backoff_witness:
  "''key'' \<noteq> [] \<and> well_formed good_email \<and> well_formed good_phone \<and> (3::nat) \<in> {1, 2, 3}
   \<and> retryable_failure (script [http_failure 503, http_failure 503] (resp_ok email_payload) 1)
   \<and> retryable_failure (script [http_failure 503, http_failure 503] (resp_ok email_payload) 2)
   \<and> phone_success (script [http_failure 503, http_failure 503] (resp_ok email_payload) 3)
        email_payload
   \<and> email_success (script [http_failure 503, http_failure 503] (resp_ok email_payload) 3)
        email_payload
   \<and> validatePhone good_phone
        (script [http_failure 503, http_failure 503] (resp_ok email_payload)) =
        \<lparr>cr_result = Inr email_payload, cr_calls = 3, cr_waits = [1000, 2000]\<rparr>
   \<and> validateEmail ''key'' good_email
        (script [http_failure 503, http_failure 503] (resp_ok email_payload)) =
        \<lparr>cr_result = Inr email_payload, cr_calls = 3, cr_waits = [1000, 2000]\<rparr>
   \<and> retryable_failure (script [] (Rejects (JsError ''TypeError'' ''fetch failed'')) 1)
   \<and> retryable_failure (script [] (Rejects (JsError ''TypeError'' ''fetch failed'')) 2)
   \<and> retryable_failure (script [] (Rejects (JsError ''TypeError'' ''fetch failed'')) 3)
   \<and> cr_calls (validatePhone good_phone
        (script [] (Rejects (JsError ''TypeError'' ''fetch failed'')))) = 3
   \<and> cr_waits (validateEmail ''key'' good_email
        (script [] (Rejects (JsError ''TypeError'' ''fetch failed'')))) = [1000, 2000]
   \<and> http_status (POST (world_with (script [http_failure 503, http_failure 503]
          (resp_ok (phone_payload True ''Mobile'')))) (phone_req (JStr good_phone)) []) = 200
   \<and> external_calls (POST (world_with (script [http_failure 503, http_failure 503]
          (resp_ok (phone_payload True ''Mobile'')))) (phone_req (JStr good_phone)) []) = 3"
proof -
  let ?f = "script [http_failure 503, http_failure 503] (resp_ok email_payload)"
  let ?g = "script [] (Rejects (JsError ''TypeError'' ''fetch failed''))"
  have key: "''key'' \<noteq> []" by simp
  have wf: "well_formed good_email" "well_formed good_phone"
    by code_simp+
  have k: "(3::nat) \<in> {1, 2, 3}" by simp
  have fail: "\<forall>i \<in> {1..<3}. retryable_failure (?f i)"
    by (simp add: script_def retryable_failure_def http_failure_def nth_Cons')
  have p: "phone_success (?f 3) email_payload" and e: "email_success (?f 3) email_payload"
    by code_simp+
  have down: "\<forall>i \<in> {1..3}. retryable_failure (?g i)"
    by (simp add: script_def retryable_failure_def network_failure_def)
  have waits: "map (\<lambda>attempt. min (1000 * 2 ^ (attempt - 1)) 5000) [1..<3] = [1000, 2000::nat]"
    by (simp add: upt_rec)
  have post: "http_status (POST (world_with (script [http_failure 503, http_failure 503]
          (resp_ok (phone_payload True ''Mobile'')))) (phone_req (JStr good_phone)) []) = 200
     \<and> external_calls (POST (world_with (script [http_failure 503, http_failure 503]
          (resp_ok (phone_payload True ''Mobile'')))) (phone_req (JStr good_phone)) []) = 3"
    by code_simp
  from retry_backoff [OF key wf, of ?f] k fail p e
  have "validatePhone good_phone ?f =
      \<lparr>cr_result = Inr email_payload, cr_calls = 3, cr_waits = [1000, 2000]\<rparr>"
    and "validateEmail ''key'' good_email ?f =
      \<lparr>cr_result = Inr email_payload, cr_calls = 3, cr_waits = [1000, 2000]\<rparr>"
    unfolding waits [symmetric] by blast+
  moreover from retry_backoff [OF key wf, of ?g] down
  have "cr_calls (validatePhone good_phone ?g) = 3"
    and "cr_waits (validateEmail ''key'' good_email ?g) = [1000, 2000]"
    by blast+
  moreover have "retryable_failure (?f 1)" "retryable_failure (?f 2)"
    using fail by simp_all
  moreover have "retryable_failure (?g 1)" "retryable_failure (?g 2)" "retryable_failure (?g 3)"
    using down by simp_all
  ultimately show ?thesis
    using key wf k p e post by blast
qed

section \<open>Client errors\<close>

text \<open>
  C2. For every external validation call that receives a response with a status from 400 to
  499 other than 429, the client makes no further attempt and propagates the error at once;
  a single 404 gives exactly 1 external call and a 502 to the caller. The code does not do
  this. \<^const>\<open>validatePhone\<close> retries every response that is not \<^verbatim>\<open>ok\<close>: after a
  404 it waits 1000 ms and calls again, and when the second call succeeds the handler
  answers 200. \<^const>\<open>validateEmail\<close> stops at a 404 on its first attempt only (1 call);
  a 404 on the second attempt, after a 503, is followed by a third call.
\<close>

theorem client_error_is_retried:
  "validatePhone good_phone
     (script [http_failure 404] (resp_ok (phone_payload True ''Mobile''))) =
     \<lparr>cr_result = Inr (phone_payload True ''Mobile''), cr_calls = 2, cr_waits = [1000]\<rparr>
   \<and> http_status (POST (world_with (script [http_failure 404]
         (resp_ok (phone_payload True ''Mobile'')))) (phone_req (JStr good_phone)) []) = 200
   \<and> external_calls (POST (world_with (script [http_failure 404]
         (resp_ok (phone_payload True ''Mobile'')))) (phone_req (JStr good_phone)) []) = 2
   \<and> cr_calls (validatePhone good_phone (script [] (http_failure 404))) = 3
   \<and> cr_calls (validateEmail ''key'' good_email (script [] (http_failure 404))) = 1
   \<and> cr_calls (validateEmail ''key'' good_email
        (script [http_failure 503] (http_failure 404))) = 3
   \<and> cr_waits (validateEmail ''key'' good_email
        (script [http_failure 503] (http_failure 404))) = [1000, 2000]"
  by code_simp

section \<open>Malformed payloads\<close>

text \<open>
  C6. For every external validation call whose response is JSON but lacks required top-level
  fields, the failure is retried up to the budget of 3 attempts and then surfaces as an
  error; such a payload is never returned as a success. The code does this in
  \<^const>\<open>validateEmail\<close>, for the two fields it tests: the empty object is asked for 3
  times, without a wait, and ends in an error. \<^const>\<open>validatePhone\<close> tests nothing: it
  returns the empty object after 1 call, and the handler answers 200 and stores a row with
  status failed.
\<close>

theorem malformed_payload_returned:
  "validatePhone good_phone (script [] (resp_ok (JObj []))) =
     \<lparr>cr_result = Inr (JObj []), cr_calls = 1, cr_waits = []\<rparr>
   \<and> http_status (POST (world_with (script [] (resp_ok (JObj []))))
         (phone_req (JStr good_phone)) []) = 200
   \<and> map col_status (db_after (POST (world_with (script [] (resp_ok (JObj []))))
         (phone_req (JStr good_phone)) [])) = [Failed]
   \<and> map col_validation_data (db_after (POST (world_with (script [] (resp_ok (JObj []))))
         (phone_req (JStr good_phone)) [])) = [Some (JObj [])]
   \<and> isl (cr_result (validateEmail ''key'' good_email (script [] (resp_ok (JObj [])))))
   \<and> cr_calls (validateEmail ''key'' good_email (script [] (resp_ok (JObj [])))) = 3
   \<and> cr_waits (validateEmail ''key'' good_email (script [] (resp_ok (JObj [])))) = []"
  by code_simp

section \<open>The order of the external call and the insert\<close>

text \<open>
  C1, as the specification has it: for every accepted request the Orchestrator creates a
  record with status pending before it invokes the External Validation Client, and when the
  external call fails the caller receives a 502 while the pending record stays in the store.
  The phone handler does not: with an external service that answers 503 three times and an
  empty table, the caller receives 502 and the table is still empty.
\<close>

theorem pending_orphan_counterexample:
  "http_status (POST (world_with (script [] (http_failure 503)))
      (phone_req (JStr good_phone)) []) = 502
   \<and> external_calls (POST (world_with (script [] (http_failure 503)))
      (phone_req (JStr good_phone)) []) = 3
   \<and> db_after (POST (world_with (script [] (http_failure 503)))
      (phone_req (JStr good_phone)) []) = []"
  by code_simp

text \<open>
  C1, amended. For every accepted phone request (a string that matches the pattern, no row
  for it in the last 5 minutes) the handler invokes the External Validation Client before it
  writes anything. When the external call fails, the caller receives a 502 and the table is
  unchanged: no row, pending or other, is created. When it returns a payload with
  properties, the caller receives a 200 and exactly one row is appended, with status
  verified or failed by the truth value of \<^verbatim>\<open>valid\<close>, never pending. When it returns
  \<^verbatim>\<open>null\<close>, the caller receives a 500 and the table is unchanged.
\<close>

theorem accepted_request_store:
  assumes "req_json request = Parsed body"
    and "getProp body ''phone'' = Inr (JStr phone)"
    and "phoneRegex_test phone"
    and "\<forall>attempt \<in> set db. col_type attempt = Phone \<and> col_value attempt = phone
           \<longrightarrow> \<not> w_checkTime w - 5 * 60 * 1000
                 < Date_getTime (w_utcOffset w) (col_created_at attempt)"
  shows "1 \<le> external_calls (POST w request db)
       \<and> external_calls (POST w request db) = cr_calls (validatePhone phone (w_fetch w))
       \<and> (\<forall>apiError. cr_result (validatePhone phone (w_fetch w)) = Inl apiError \<longrightarrow>
            http_status (POST w request db) = 502 \<and> db_after (POST w request db) = db)
       \<and> (\<forall>data valid.
            cr_result (validatePhone phone (w_fetch w)) = Inr data
            \<and> getProp data ''valid'' = Inr valid \<longrightarrow>
              http_status (POST w request db) = 200
            \<and> length (db_after (POST w request db)) = Suc (length db)
            \<and> butlast (db_after (POST w request db)) = db
            \<and> col_type (last (db_after (POST w request db))) = Phone
            \<and> col_value (last (db_after (POST w request db))) = phone
            \<and> col_status (last (db_after (POST w request db))) =
                (if truthy valid then Verified else Failed)
            \<and> col_status (last (db_after (POST w request db))) \<noteq> Pending)
       \<and> (\<forall>data e.
            cr_result (validatePhone phone (w_fetch w)) = Inr data
            \<and> getProp data ''valid'' = Inl e \<longrightarrow>
              http_status (POST w request db) = 500 \<and> db_after (POST w request db) = db)"
proof -
  let ?cr = "validatePhone phone (w_fetch w)"
  note post = POST_accepted [OF assms, unfolded Let_def]
  have calls: "external_calls (POST w request db) = cr_calls ?cr"
  proof (cases "cr_result ?cr")
    case (Inl e)
    then show ?thesis by (simp add: post error_response_def)
  next
    case (Inr data)
    show ?thesis
    proof (cases "getProp data ''valid''")
      case (Inl e)
      with Inr show ?thesis
        by (simp add: post POST_validated_def phone_score_def error_response_def)
    next
      case Inr': (Inr valid)
      obtain q l where "POST_validated w request phone db ?cr data =
          POST_persist w request phone db ?cr data (if truthy valid then Verified else Failed) q l"
        using POST_validated_success [OF Inr'] by blast
      with Inr show ?thesis by (simp add: post POST_persist_eq)
    qed
  qed
  have failed: "http_status (POST w request db) = 502 \<and> db_after (POST w request db) = db"
    if "cr_result ?cr = Inl apiError" for apiError
    using that by (simp add: post error_response_def)
  have stored: "http_status (POST w request db) = 200
      \<and> length (db_after (POST w request db)) = Suc (length db)
      \<and> butlast (db_after (POST w request db)) = db
      \<and> col_type (last (db_after (POST w request db))) = Phone
      \<and> col_value (last (db_after (POST w request db))) = phone
      \<and> col_status (last (db_after (POST w request db))) =
          (if truthy valid then Verified else Failed)
      \<and> col_status (last (db_after (POST w request db))) \<noteq> Pending"
    if "cr_result ?cr = Inr data \<and> getProp data ''valid'' = Inr valid" for data valid
  proof -
    from that have r: "cr_result ?cr = Inr data" and v: "getProp data ''valid'' = Inr valid"
      by simp_all
    obtain q l where "POST_validated w request phone db ?cr data =
        POST_persist w request phone db ?cr data (if truthy valid then Verified else Failed) q l"
      using POST_validated_success [OF v] by blast
    with r have "POST w request db =
        POST_persist w request phone db ?cr data (if truthy valid then Verified else Failed) q l"
      by (simp add: post)
    then show ?thesis
      by (simp add: POST_persist_eq inserted_row_def phone_request_def)
  qed
  have thrown: "http_status (POST w request db) = 500 \<and> db_after (POST w request db) = db"
    if "cr_result ?cr = Inr data \<and> getProp data ''valid'' = Inl e" for data e
    using that by (simp add: post POST_validated_def phone_score_def error_response_def)
  from calls phone_calls_ge [OF phoneRegex_well_formed [OF assms(3)], of "w_fetch w"]
    failed stored thrown show ?thesis
    by (intro conjI allI impI) simp_all
qed

theorem accepted_request_store_witness:
  "req_json (phone_req (JStr good_phone)) = Parsed (JObj [(str16 ''phone'', JStr good_phone)])
   \<and> getProp (JObj [(str16 ''phone'', JStr good_phone)]) ''phone'' = Inr (JStr good_phone)
   \<and> phoneRegex_test good_phone
   \<and> cr_result (validatePhone good_phone (script [] (http_failure 503))) =
       Inl (JsError ''Error'' ''Failed to validate phone with Abstract API'')
   \<and> http_status (POST (world_with (script [] (http_failure 503)))
        (phone_req (JStr good_phone)) [sample_row 1 good_phone 1600000000000]) = 502
   \<and> db_after (POST (world_with (script [] (http_failure 503)))
        (phone_req (JStr good_phone)) [sample_row 1 good_phone 1600000000000])
       = [sample_row 1 good_phone 1600000000000]
   \<and> cr_result (validatePhone good_phone (script [] (resp_ok (phone_payload False ''Mobile'')))) =
       Inr (phone_payload False ''Mobile'')
   \<and> getProp (phone_payload False ''Mobile'') ''valid'' = Inr (JBool False)
   \<and> http_status (POST (world_with (script [] (resp_ok (phone_payload False ''Mobile''))))
        (phone_req (JStr good_phone)) [sample_row 1 good_phone 1600000000000]) = 200
   \<and> col_status (last (db_after (POST (world_with (script [] (resp_ok (phone_payload False ''Mobile''))))
        (phone_req (JStr good_phone)) [sample_row 1 good_phone 1600000000000]))) = Failed"
proof -
  let ?db = "[sample_row 1 good_phone 1600000000000]"
  let ?down = "world_with (script [] (http_failure 503))"
  let ?up = "world_with (script [] (resp_ok (phone_payload False ''Mobile'')))"
  have body: "req_json (phone_req (JStr good_phone)) =
      Parsed (JObj [(str16 ''phone'', JStr good_phone)])"
    by (simp add: phone_req_def)
  have phone: "getProp (JObj [(str16 ''phone'', JStr good_phone)]) ''phone'' = Inr (JStr good_phone)"
    by simp
  have pattern: "phoneRegex_test good_phone"
    by code_simp
  have old: "\<forall>attempt \<in> set ?db. col_type attempt = Phone \<and> col_value attempt = good_phone
      \<longrightarrow> \<not> w_checkTime w - 5 * 60 * 1000
            < Date_getTime (w_utcOffset w) (col_created_at attempt)"
    if "w_checkTime w = 1700000000002 \<and> w_utcOffset w = 0" for w
    using that by (simp add: sample_row_def Date_getTime_def)
  have t: "w_checkTime ?down = 1700000000002 \<and> w_utcOffset ?down = 0"
    "w_checkTime ?up = 1700000000002 \<and> w_utcOffset ?up = 0"
    by (simp_all add: world_with_def)
  have f: "w_fetch ?down = script [] (http_failure 503)"
    "w_fetch ?up = script [] (resp_ok (phone_payload False ''Mobile''))"
    by (simp_all add: world_with_def)
  have down: "cr_result (validatePhone good_phone (script [] (http_failure 503))) =
      Inl (JsError ''Error'' ''Failed to validate phone with Abstract API'')"
    by code_simp
  have up: "cr_result (validatePhone good_phone (script [] (resp_ok (phone_payload False ''Mobile'')))) =
      Inr (phone_payload False ''Mobile'')"
    by code_simp
  have valid: "getProp (phone_payload False ''Mobile'') ''valid'' = Inr (JBool False)"
    by (simp add: phone_payload_def)
  from accepted_request_store [OF body phone pattern old [OF t(1)]] down
  have "http_status (POST ?down (phone_req (JStr good_phone)) ?db) = 502"
    and "db_after (POST ?down (phone_req (JStr good_phone)) ?db) = ?db"
    unfolding f by blast+
  moreover from accepted_request_store [OF body phone pattern old [OF t(2)]] up valid
  have "http_status (POST ?up (phone_req (JStr good_phone)) ?db) = 200"
    and "col_status (last (db_after (POST ?up (phone_req (JStr good_phone)) ?db))) =
      (if truthy (JBool False) then Verified else Failed)"
    unfolding f by blast+
  ultimately show ?thesis
    using body phone pattern down up valid by simp
qed

section \<open>Rate limiting\<close>

text \<open>
  C3. For every verification request on a (kind, value) pair for which a prior attempt
  exists within the last 5 minutes, the request ends with HTTP 429, no new record is created
  and no external call is made. The phone handler does this on a server whose time zone is
  UTC, after a request that was stored: a second request 299 seconds later is answered 429,
  with no call and no new row. It does not on a server one hour east of UTC: the handler
  reads the time that SQLite wrote in UTC as local time, finds the row an hour older than it
  is, and serves the second request, with an external call and a second row; five hours
  west of UTC it still answers 429 an hour after the first request. Nor does it after a
  request that the external service failed (502): that one leaves no row, and the request
  that follows a second later is served.
\<close>

theorem rate_limit_missed:
  "http_status (POST (world_with (script [] (resp_ok (phone_payload True ''Mobile''))))
      (phone_req (JStr good_phone)) []) = 200
   \<and> map col_created_at (db_after (POST (world_with (script [] (resp_ok (phone_payload True ''Mobile''))))
      (phone_req (JStr good_phone)) [])) = [1700000003000]
   \<and> w_checkTime (later_world 299000) = 1700000003000 + 299000 + 2
   \<and> http_status (POST (later_world 299000) (phone_req (JStr good_phone))
        (db_after (POST (world_with (script [] (resp_ok (phone_payload True ''Mobile''))))
           (phone_req (JStr good_phone)) []))) = 429
   \<and> external_calls (POST (later_world 299000) (phone_req (JStr good_phone))
        (db_after (POST (world_with (script [] (resp_ok (phone_payload True ''Mobile''))))
           (phone_req (JStr good_phone)) []))) = 0
   \<and> http_status (POST ((later_world 299000)\<lparr>w_utcOffset := 3600000\<rparr>)
        (phone_req (JStr good_phone))
        (db_after (POST ((world_with (script [] (resp_ok (phone_payload True ''Mobile''))))
           \<lparr>w_utcOffset := 3600000\<rparr>) (phone_req (JStr good_phone)) []))) = 200
   \<and> external_calls (POST ((later_world 299000)\<lparr>w_utcOffset := 3600000\<rparr>)
        (phone_req (JStr good_phone))
        (db_after (POST ((world_with (script [] (resp_ok (phone_payload True ''Mobile''))))
           \<lparr>w_utcOffset := 3600000\<rparr>) (phone_req (JStr good_phone)) []))) = 1
   \<and> map col_id (db_after (POST ((later_world 299000)\<lparr>w_utcOffset := 3600000\<rparr>)
        (phone_req (JStr good_phone))
        (db_after (POST ((world_with (script [] (resp_ok (phone_payload True ''Mobile''))))
           \<lparr>w_utcOffset := 3600000\<rparr>) (phone_req (JStr good_phone)) [])))) = [1, 2]
   \<and> http_status (POST ((later_world 3600000)\<lparr>w_utcOffset := - 18000000\<rparr>)
        (phone_req (JStr good_phone))
        (db_after (POST ((world_with (script [] (resp_ok (phone_payload True ''Mobile''))))
           \<lparr>w_utcOffset := - 18000000\<rparr>) (phone_req (JStr good_phone)) []))) = 429
   \<and> http_status (POST (world_with (script [] (http_failure 503)))
        (phone_req (JStr good_phone)) []) = 502
   \<and> http_status (POST (later_world 1000) (phone_req (JStr good_phone))
        (db_after (POST (world_with (script [] (http_failure 503)))
           (phone_req (JStr good_phone)) []))) = 200
   \<and> external_calls (POST (later_world 1000) (phone_req (JStr good_phone))
        (db_after (POST (world_with (script [] (http_failure 503)))
           (phone_req (JStr good_phone)) []))) = 1"
  by code_simp

section \<open>Input validation\<close>

text \<open>
  C7, as the specification has it: every phone request whose value does not match the
  pattern "optional leading +, then at least 10 characters drawn from digits, spaces, hyphens
  and parentheses" ends with HTTP 400 before any record is created and before any external
  call. The class of the code's pattern has \<^verbatim>\<open>\s\<close>, every white-space character
  and line terminator, where the specification has the space: a number written with tabs,
  and a text of ten ideographic spaces, do not match the pattern of the specification, and
  the handler accepts them, calls the external service and stores a row.
\<close>

theorem whitespace_phone_counterexample:
  "\<not> spec_phone_pattern tabbed_phone
   \<and> http_status (POST (world_with (script [] (resp_ok (phone_payload True ''Mobile''))))
        (phone_req (JStr tabbed_phone)) []) = 200
   \<and> external_calls (POST (world_with (script [] (resp_ok (phone_payload True ''Mobile''))))
        (phone_req (JStr tabbed_phone)) []) = 1
   \<and> map col_value (db_after (POST (world_with (script [] (resp_ok (phone_payload True ''Mobile''))))
        (phone_req (JStr tabbed_phone)) [])) = [tabbed_phone]
   \<and> \<not> spec_phone_pattern blank_phone
   \<and> http_status (POST (world_with (script [] (resp_ok (phone_payload True ''Mobile''))))
        (phone_req (JStr blank_phone)) []) = 200
   \<and> external_calls (POST (world_with (script [] (resp_ok (phone_payload True ''Mobile''))))
        (phone_req (JStr blank_phone)) []) = 1
   \<and> map col_value (db_after (POST (world_with (script [] (resp_ok (phone_payload True ''Mobile''))))
        (phone_req (JStr blank_phone)) [])) = [blank_phone]"
  by code_simp

text \<open>
  C7, amended. Every phone request whose value does not match the pattern of the code, an
  optional leading + and then at least 10 UTF-16 code units drawn from the digits 0 to 9,
  the hyphen, the two parentheses and the class \<^verbatim>\<open>\s\<close> of the language (U+0009 to
  U+000D, U+0020, U+00A0, U+1680, U+2000 to U+200A, U+2028, U+2029, U+202F, U+205F, U+3000,
  U+FEFF), ends with HTTP 400 before any record is created and before any external call is
  made; the value \<^verbatim>\<open>abc\<close> is one. So does a request whose \<^verbatim>\<open>phone\<close> is not a
  string or is not there. The pattern is spelled out unit by unit in the second part.
\<close>

theorem invalid_phone_rejected:
  assumes "req_json request = Parsed body"
    and "getProp body ''phone'' = Inr phone_v"
    and "\<forall>p. phone_v = JStr p \<longrightarrow> \<not> phoneRegex_test p"
  shows "http_status (POST w request db) = 400 \<and> db_after (POST w request db) = db
       \<and> external_calls (POST w request db) = 0
       \<and> (\<forall>p. phoneRegex_test p =
            (10 \<le> length (if take 1 p = [0x2B] then drop 1 p else p)
             \<and> (\<forall>c \<in> set (if take 1 p = [0x2B] then drop 1 p else p).
                  (0x30 \<le> c \<and> c \<le> 0x39) \<or> c = 0x2D \<or> c = 0x28 \<or> c = 0x29
                \<or> (0x09 \<le> c \<and> c \<le> 0x0D) \<or> c = 0x20 \<or> c = 0xA0 \<or> c = 0x1680
                \<or> (0x2000 \<le> c \<and> c \<le> 0x200A) \<or> c = 0x2028 \<or> c = 0x2029
                \<or> c = 0x202F \<or> c = 0x205F \<or> c = 0x3000 \<or> c = 0xFEFF)))"
proof (intro conjI allI)
  show "http_status (POST w request db) = 400" "db_after (POST w request db) = db"
    "external_calls (POST w request db) = 0"
    using assms
    by (cases phone_v; simp add: POST_def error_response_def no_call_def)+
next
  fix p :: jsstring
  have low: "\<And>c :: 16 word. (0x09 \<le> c \<and> c \<le> 0x0D) =
      (c = 0x09 \<or> c = 0x0A \<or> c = 0x0B \<or> c = 0x0C \<or> c = 0x0D)"
    by (auto simp: word_le_nat_alt word_unat_eq_iff)
  have cls: "\<And>c. phone_class c =
      ((0x30 \<le> c \<and> c \<le> 0x39) \<or> c = 0x2D \<or> c = 0x28 \<or> c = 0x29
       \<or> (0x09 \<le> c \<and> c \<le> 0x0D) \<or> c = 0x20 \<or> c = 0xA0 \<or> c = 0x1680
       \<or> (0x2000 \<le> c \<and> c \<le> 0x200A) \<or> c = 0x2028 \<or> c = 0x2029
       \<or> c = 0x202F \<or> c = 0x205F \<or> c = 0x3000 \<or> c = 0xFEFF)"
    unfolding low phone_class_def regex_d_def regex_s_def by auto
  show "phoneRegex_test p =
      (10 \<le> length (if take 1 p = [0x2B] then drop 1 p else p)
       \<and> (\<forall>c \<in> set (if take 1 p = [0x2B] then drop 1 p else p).
            (0x30 \<le> c \<and> c \<le> 0x39) \<or> c = 0x2D \<or> c = 0x28 \<or> c = 0x29
          \<or> (0x09 \<le> c \<and> c \<le> 0x0D) \<or> c = 0x20 \<or> c = 0xA0 \<or> c = 0x1680
          \<or> (0x2000 \<le> c \<and> c \<le> 0x200A) \<or> c = 0x2028 \<or> c = 0x2029
          \<or> c = 0x202F \<or> c = 0x205F \<or> c = 0x3000 \<or> c = 0xFEFF))"
    by (cases p) (simp_all add: phoneRegex_test_def list_all_iff cls)
qed

theorem invalid_phone_rejected_witness:
  "req_json (phone_req (JStr (str16 ''abc''))) =
     Parsed (JObj [(str16 ''phone'', JStr (str16 ''abc''))])
   \<and> getProp (JObj [(str16 ''phone'', JStr (str16 ''abc''))]) ''phone'' = Inr (JStr (str16 ''abc''))
   \<and> \<not> phoneRegex_test (str16 ''abc'')
   \<and> http_status (POST (world_with (script [] (resp_ok (phone_payload True ''Mobile''))))
        (phone_req (JStr (str16 ''abc''))) [sample_row 1 good_phone 1600000000000]) = 400
   \<and> db_after (POST (world_with (script [] (resp_ok (phone_payload True ''Mobile''))))
        (phone_req (JStr (str16 ''abc''))) [sample_row 1 good_phone 1600000000000])
       = [sample_row 1 good_phone 1600000000000]
   \<and> external_calls (POST (world_with (script [] (resp_ok (phone_payload True ''Mobile''))))
        (phone_req (JStr (str16 ''abc''))) [sample_row 1 good_phone 1600000000000]) = 0"
proof -
  have body: "req_json (phone_req (JStr (str16 ''abc''))) =
      Parsed (JObj [(str16 ''phone'', JStr (str16 ''abc''))])"
    by (simp add: phone_req_def)
  have phone: "getProp (JObj [(str16 ''phone'', JStr (str16 ''abc''))]) ''phone'' =
      Inr (JStr (str16 ''abc''))"
    by simp
  have short: "\<not> phoneRegex_test (str16 ''abc'')"
    by code_simp
  then have bad: "\<forall>p. JStr (str16 ''abc'') = JStr p \<longrightarrow> \<not> phoneRegex_test p"
    by simp
  show ?thesis
    using invalid_phone_rejected [OF body phone bad] body phone short by blast
qed

section \<open>Partial update of a row\<close>

text \<open>
  C8. For every call of the Record Store's update with a set of field updates, only the
  supplied fields among status, validation payload, reputation data, response latency,
  quality score and risk tier, and the time of the update, are modified, and every other
  column of the row is unchanged; when the id matches no row the operation completes and
  changes nothing. Stated on the table before (\<open>db\<close>) and after (\<open>db'\<close>), row by row: the
  rows are as many; the id, type, value, verification code, creation time, address and agent
  of every row stay; a row with another id stays as it is; a column of the six that changes
  holds the supplied value; the update time changes only in the row of the id and only when
  a field is supplied; the supplied fields are written in the row of the id.
\<close>

theorem update_frame:
  assumes "db' = updateVerificationRequest dbTime ident u db"
  shows "length db' = length db
       \<and> (\<forall>i < length db.
            col_id (db' ! i) = col_id (db ! i)
          \<and> col_type (db' ! i) = col_type (db ! i)
          \<and> col_value (db' ! i) = col_value (db ! i)
          \<and> col_verification_code (db' ! i) = col_verification_code (db ! i)
          \<and> col_created_at (db' ! i) = col_created_at (db ! i)
          \<and> col_ip_address (db' ! i) = col_ip_address (db ! i)
          \<and> col_user_agent (db' ! i) = col_user_agent (db ! i)
          \<and> (col_id (db ! i) \<noteq> ident \<longrightarrow> db' ! i = db ! i)
          \<and> (col_status (db' ! i) \<noteq> col_status (db ! i) \<longrightarrow>
               upd_status u = Some (col_status (db' ! i)))
          \<and> (col_validation_data (db' ! i) \<noteq> col_validation_data (db ! i) \<longrightarrow>
               upd_validation_data u \<noteq> JUndefined
               \<and> col_validation_data (db' ! i) = Some (upd_validation_data u))
          \<and> (col_reputation_data (db' ! i) \<noteq> col_reputation_data (db ! i) \<longrightarrow>
               upd_reputation_data u \<noteq> JUndefined
               \<and> col_reputation_data (db' ! i) = Some (upd_reputation_data u))
          \<and> (col_api_response_time (db' ! i) \<noteq> col_api_response_time (db ! i) \<longrightarrow>
               upd_api_response_time u \<noteq> None
               \<and> col_api_response_time (db' ! i) = upd_api_response_time u)
          \<and> (col_quality_score (db' ! i) \<noteq> col_quality_score (db ! i) \<longrightarrow>
               upd_quality_score u \<noteq> None
               \<and> col_quality_score (db' ! i) = upd_quality_score u)
          \<and> (col_risk_level (db' ! i) \<noteq> col_risk_level (db ! i) \<longrightarrow>
               upd_risk_level u \<noteq> None
               \<and> col_risk_level (db' ! i) = upd_risk_level u)
          \<and> (col_updated_at (db' ! i) \<noteq> col_updated_at (db ! i) \<longrightarrow>
               update_fields u \<noteq> [] \<and> col_id (db ! i) = ident
               \<and> col_updated_at (db' ! i) = CURRENT_TIMESTAMP dbTime))
       \<and> (\<forall>i < length db. col_id (db ! i) = ident \<longrightarrow>
            (\<forall>s. upd_status u = Some s \<longrightarrow> col_status (db' ! i) = s)
          \<and> (upd_validation_data u \<noteq> JUndefined \<longrightarrow>
               col_validation_data (db' ! i) = Some (upd_validation_data u))
          \<and> (upd_reputation_data u \<noteq> JUndefined \<longrightarrow>
               col_reputation_data (db' ! i) = Some (upd_reputation_data u))
          \<and> (\<forall>t. upd_api_response_time u = Some t \<longrightarrow>
               col_api_response_time (db' ! i) = Some t)
          \<and> (\<forall>q. upd_quality_score u = Some q \<longrightarrow> col_quality_score (db' ! i) = Some q)
          \<and> (\<forall>l. upd_risk_level u = Some l \<longrightarrow> col_risk_level (db' ! i) = Some l))
       \<and> (ident \<notin> col_id ` set db \<longrightarrow> db' = db)"
proof (intro conjI allI impI)
  show "length db' = length db"
    using assms by (simp add: update_row)
next
  assume "ident \<notin> col_id ` set db"
  then show "db' = db"
    using assms by (simp add: update_unknown_id)
next
  fix i assume i: "i < length db" and hit: "col_id (db ! i) = ident"
  have row: "\<And>x. update_fields u \<noteq> [] \<Longrightarrow> db' ! i =
      fold (assign dbTime) (update_fields u @ [SetUpdatedAt]) (db ! i)"
    using assms i hit by (simp add: update_row)
  show "col_status (db' ! i) = s" if "upd_status u = Some s" for s
    using that row by (simp add: update_fields_empty assign_all)
  show "col_validation_data (db' ! i) = Some (upd_validation_data u)"
    if "upd_validation_data u \<noteq> JUndefined"
    using that row by (simp add: update_fields_empty assign_all)
  show "col_reputation_data (db' ! i) = Some (upd_reputation_data u)"
    if "upd_reputation_data u \<noteq> JUndefined"
    using that row by (simp add: update_fields_empty assign_all)
  show "col_api_response_time (db' ! i) = Some t" if "upd_api_response_time u = Some t" for t
    using that row by (simp add: update_fields_empty assign_all)
  show "col_quality_score (db' ! i) = Some q" if "upd_quality_score u = Some q" for q
    using that row by (simp add: update_fields_empty assign_all)
  show "col_risk_level (db' ! i) = Some l" if "upd_risk_level u = Some l" for l
    using that row by (simp add: update_fields_empty assign_all)
next
  fix i assume i: "i < length db"
  have row: "db' ! i =
      (if col_id (db ! i) = ident \<and> update_fields u \<noteq> []
       then fold (assign dbTime) (update_fields u @ [SetUpdatedAt]) (db ! i) else db ! i)"
    using assms i by (simp add: update_row)
  show "col_id (db' ! i) = col_id (db ! i)" by (simp add: row assign_all)
  show "col_type (db' ! i) = col_type (db ! i)" by (simp add: row assign_all)
  show "col_value (db' ! i) = col_value (db ! i)" by (simp add: row assign_all)
  show "col_verification_code (db' ! i) = col_verification_code (db ! i)"
    by (simp add: row assign_all)
  show "col_created_at (db' ! i) = col_created_at (db ! i)" by (simp add: row assign_all)
  show "col_ip_address (db' ! i) = col_ip_address (db ! i)" by (simp add: row assign_all)
  show "col_user_agent (db' ! i) = col_user_agent (db ! i)" by (simp add: row assign_all)
  show "db' ! i = db ! i" if "col_id (db ! i) \<noteq> ident"
    using that by (simp add: row)
  show "upd_status u = Some (col_status (db' ! i))"
    if "col_status (db' ! i) \<noteq> col_status (db ! i)"
    using that by (simp add: row assign_all split: if_splits option.splits)
  show "upd_validation_data u \<noteq> JUndefined"
    "col_validation_data (db' ! i) = Some (upd_validation_data u)"
    if "col_validation_data (db' ! i) \<noteq> col_validation_data (db ! i)"
    using that by (simp_all add: row assign_all split: if_splits)
  show "upd_reputation_data u \<noteq> JUndefined"
    "col_reputation_data (db' ! i) = Some (upd_reputation_data u)"
    if "col_reputation_data (db' ! i) \<noteq> col_reputation_data (db ! i)"
    using that by (simp_all add: row assign_all split: if_splits)
  show "upd_api_response_time u \<noteq> None"
    "col_api_response_time (db' ! i) = upd_api_response_time u"
    if "col_api_response_time (db' ! i) \<noteq> col_api_response_time (db ! i)"
    using that by (simp_all add: row assign_all split: if_splits option.splits)
  show "upd_quality_score u \<noteq> None"
    "col_quality_score (db' ! i) = upd_quality_score u"
    if "col_quality_score (db' ! i) \<noteq> col_quality_score (db ! i)"
    using that by (simp_all add: row assign_all split: if_splits option.splits)
  show "upd_risk_level u \<noteq> None"
    "col_risk_level (db' ! i) = upd_risk_level u"
    if "col_risk_level (db' ! i) \<noteq> col_risk_level (db ! i)"
    using that by (simp_all add: row assign_all split: if_splits option.splits)
  show "update_fields u \<noteq> []" "col_id (db ! i) = ident"
    "col_updated_at (db' ! i) = CURRENT_TIMESTAMP dbTime"
    if "col_updated_at (db' ! i) \<noteq> col_updated_at (db ! i)"
    using that by (simp_all add: row assign_all split: if_splits)
qed

theorem update_frame_witness:
  "updateVerificationRequest 7777 4 status_update
      [sample_row 4 good_phone 10, sample_row 5 good_phone 10] =
     [(sample_row 4 good_phone 10)\<lparr>col_status := Failed, col_updated_at := 7000\<rparr>,
      sample_row 5 good_phone 10]
   \<and> (0::nat) < length [sample_row 4 good_phone 10, sample_row 5 good_phone 10]
   \<and> col_id ([sample_row 4 good_phone 10, sample_row 5 good_phone 10] ! 0) = 4
   \<and> col_id ([sample_row 4 good_phone 10, sample_row 5 good_phone 10] ! 1) \<noteq> 4
   \<and> upd_status status_update = Some Failed
   \<and> upd_value status_update = Some (str16 ''other'')
   \<and> col_value (updateVerificationRequest 7777 4 status_update
        [sample_row 4 good_phone 10, sample_row 5 good_phone 10] ! 0) = good_phone
   \<and> 9 \<notin> col_id ` set [sample_row 4 good_phone 10, sample_row 5 good_phone 10]
   \<and> updateVerificationRequest 7777 9 status_update
        [sample_row 4 good_phone 10, sample_row 5 good_phone 10]
       = [sample_row 4 good_phone 10, sample_row 5 good_phone 10]"
proof -
  let ?db = "[sample_row 4 good_phone 10, sample_row 5 good_phone 10]"
  have ids: "col_id (?db ! 0) = 4" "col_id (?db ! 1) \<noteq> 4" "9 \<notin> col_id ` set ?db"
    by (simp_all add: sample_row_def)
  have u: "upd_status status_update = Some Failed" "upd_value status_update = Some (str16 ''other'')"
    by (simp_all add: status_update_def response_time_update_def)
  have upd: "updateVerificationRequest 7777 4 status_update ?db =
      [(sample_row 4 good_phone 10)\<lparr>col_status := Failed, col_updated_at := 7000\<rparr>,
       sample_row 5 good_phone 10]"
    by code_simp
  from update_frame [OF refl, of 7777 4 status_update ?db] ids u
  have "col_value (updateVerificationRequest 7777 4 status_update ?db ! 0) = col_value (?db ! 0)"
    by simp
  moreover from update_frame [OF refl, of 7777 9 status_update ?db] ids
  have "updateVerificationRequest 7777 9 status_update ?db = ?db"
    by blast
  ultimately show ?thesis
    using ids u upd by (simp add: sample_row_def)
qed

section \<open>Zero stored as NULL\<close>

text \<open>
  C9. For every insertion in which the numeric field \<^verbatim>\<open>api_response_time\<close> or
  \<^verbatim>\<open>quality_score\<close> is 0, the row stores NULL for that field and not 0, since
  \<^verbatim>\<open>x || null\<close> takes 0 for false (any other number is stored as it is); the phone
  handler's insert passes \<^verbatim>\<open>api_response_time: 0\<close>, so the row it creates has no
  response time until the update that follows writes one.
\<close>

theorem zero_stored_as_null:
  "snd (createVerificationRequest random36 dbTime jsTime request db) =
     db @ [inserted_row random36 dbTime request db]
   \<and> (vr_api_response_time request = Some 0 \<longrightarrow>
        col_api_response_time (inserted_row random36 dbTime request db) = None)
   \<and> (vr_quality_score request = Some 0 \<longrightarrow>
        col_quality_score (inserted_row random36 dbTime request db) = None)
   \<and> (\<forall>n. vr_api_response_time request = Some n \<and> n \<noteq> 0 \<longrightarrow>
        col_api_response_time (inserted_row random36 dbTime request db) = Some n)
   \<and> (\<forall>q. vr_quality_score request = Some q \<and> q \<noteq> 0 \<longrightarrow>
        col_quality_score (inserted_row random36 dbTime request db) = Some q)
   \<and> vr_api_response_time (phone_request hreq phone validationData st score level) = Some 0
   \<and> col_api_response_time
        (inserted_row random36 dbTime
           (phone_request hreq phone validationData st score level) db) = None
   \<and> db_after (POST_persist w hreq phone db cr validationData st score level) =
        db @ [(inserted_row (w_random36 w) (w_insertTime w)
                 (phone_request hreq phone validationData st score level) db)
               \<lparr>col_api_response_time := Some (w_endTime w - w_startTime w),
                col_updated_at := CURRENT_TIMESTAMP (w_updateTime w)\<rparr>]"
  by (simp add: createVerificationRequest_def inserted_row_def or_null_def phone_request_def
      POST_persist_eq)

theorem zero_stored_as_null_witness:
  "vr_api_response_time sample_request = Some 0 \<and> vr_quality_score sample_request = Some 0
   \<and> col_api_response_time (inserted_row ''0.i'' 5000 sample_request []) = None
   \<and> col_quality_score (inserted_row ''0.i'' 5000 sample_request []) = None
   \<and> vr_api_response_time (sample_request\<lparr>vr_api_response_time := Some 412,
        vr_quality_score := Some (9 / 10)\<rparr>) = Some 412
   \<and> col_api_response_time (inserted_row ''0.i'' 5000
        (sample_request\<lparr>vr_api_response_time := Some 412, vr_quality_score := Some (9 / 10)\<rparr>) [])
       = Some 412
   \<and> col_quality_score (inserted_row ''0.i'' 5000
        (sample_request\<lparr>vr_api_response_time := Some 412, vr_quality_score := Some (9 / 10)\<rparr>) [])
       = Some (9 / 10)"
proof -
  let ?r = "sample_request\<lparr>vr_api_response_time := Some 412, vr_quality_score := Some (9 / 10)\<rparr>"
  have z: "vr_api_response_time sample_request = Some 0" "vr_quality_score sample_request = Some 0"
    by (simp_all add: sample_request_def)
  have n: "vr_api_response_time ?r = Some 412 \<and> (412::int) \<noteq> 0"
    "vr_quality_score ?r = Some (9 / 10) \<and> (9 / 10 :: rat) \<noteq> 0"
    by simp_all
  from zero_stored_as_null [of "''0.i''" 5000 5000 sample_request "[]"] z
  have "col_api_response_time (inserted_row ''0.i'' 5000 sample_request []) = None"
    and "col_quality_score (inserted_row ''0.i'' 5000 sample_request []) = None"
    by blast+
  moreover from zero_stored_as_null [of "''0.i''" 5000 5000 ?r "[]"] n
  have "col_api_response_time (inserted_row ''0.i'' 5000 ?r []) = Some 412"
    and "col_quality_score (inserted_row ''0.i'' 5000 ?r []) = Some (9 / 10)"
    by blast+
  ultimately show ?thesis
    using z n by simp
qed

section \<open>The verification code\<close>

text \<open>
  C10. Every record created by the insert is given a verification code of at most 6
  characters drawn from the digits and the letters A to Z, made from a random number and
  from nothing else: not from the submitted value, not from a validation result, and not
  from a code the caller supplies, which it replaces in the row and in the object returned.
  The code can be shorter than 6 characters. The random number enters as the text
  \<^verbatim>\<open>Math.random().toString(36)\<close> gives, which the language defines to be of the form
  \<^const>\<open>radix36_fraction\<close>.
\<close>

theorem verification_code_shape:
  assumes "radix36_fraction random36"
  shows "col_verification_code
           (last (snd (createVerificationRequest random36 dbTime jsTime request db)))
           = Some (verificationCode random36)
       \<and> vr_verification_code (fst (createVerificationRequest random36 dbTime jsTime request db))
           = Some (verificationCode random36)
       \<and> length (verificationCode random36) \<le> 6
       \<and> list_all base36_upper (verificationCode random36)
       \<and> radix36_fraction ''0.i'' \<and> verificationCode ''0.i'' = ''I''
       \<and> radix36_fraction ''0'' \<and> verificationCode ''0'' = []"
proof -
  have "radix36_fraction ''0.i'' \<and> verificationCode ''0.i'' = ''I''
      \<and> radix36_fraction ''0'' \<and> verificationCode ''0'' = []"
    by code_simp
  then show ?thesis
    using verificationCode_alphabet [OF assms]
    by (simp add: createVerificationRequest_def inserted_row_def request_fields.defs
        VerificationRequest.defs)
qed

theorem verification_code_shape_witness:
  "radix36_fraction ''0.4fzyo82mvyr''
   \<and> vr_verification_code sample_request = Some ''CHOSEN''
   \<and> verificationCode ''0.4fzyo82mvyr'' = ''4FZYO8''
   \<and> col_verification_code
        (last (snd (createVerificationRequest ''0.4fzyo82mvyr'' 5000 5001 sample_request [])))
       = Some ''4FZYO8''
   \<and> vr_verification_code
        (fst (createVerificationRequest ''0.4fzyo82mvyr'' 5000 5001 sample_request []))
       = Some ''4FZYO8''"
proof -
  have r: "radix36_fraction ''0.4fzyo82mvyr''"
    by code_simp
  have c: "verificationCode ''0.4fzyo82mvyr'' = ''4FZYO8''"
    by code_simp
  have s: "vr_verification_code sample_request = Some ''CHOSEN''"
    by (simp add: sample_request_def)
  show ?thesis
    using verification_code_shape [OF r, of 5000 5001 sample_request "[]"] r c s
    by simp
qed

end
